theory Spec2Isabelle
  imports Complex_Main "HOL-Library.Sublist" "HOL-Library.Product_Lexorder"
begin

section \<open>Numbers\<close>

text \<open>
  The script \<^verbatim>\<open>sprinkler_check.py\<close> computes with Python floats, that is with
  IEEE 754 doubles. A double is represented by its exact rational value, and every
  operation of the script rounds its exact result to the nearest double, a tie going
  to the even significand: \<open>fl\<close>. The model keeps the 53-bit significand and leaves
  the exponent unbounded: overflow to infinity, subnormal numbers and NaN are outside
  it. (Millimetres of rain, pascals and inches are far from either end of the range.)
  An integer below \<open>2\<^sup>5\<^sup>3\<close> is a double, so Python's \<^verbatim>\<open>int\<close> values of the
  script (the initial \<^verbatim>\<open>0\<close> of a total, the divisor \<^verbatim>\<open>100\<close>, an integer
  in the JSON document) need no case of their own.
\<close>

definition round_half_even :: "rat \<Rightarrow> int" where
  "round_half_even x =
     (let f = \<lfloor>x\<rfloor>; r = x - of_int f
      in if r < 1 / 2 then f
         else if 1 / 2 < r then f + 1
         else if even f then f else f + 1)"

text \<open>
  The binary exponent of a positive number: \<open>2 powi ilog2 x \<le> x < 2 powi (ilog2 x + 1)\<close>.
\<close>

function log2_up :: "rat \<Rightarrow> nat" where
  "log2_up x = (if x < 2 then 0 else Suc (log2_up (x / 2)))"
  by pat_completeness auto
termination
proof (relation "measure (\<lambda>x. nat \<lfloor>x\<rfloor>)")
  show "wf (measure (\<lambda>x::rat. nat \<lfloor>x\<rfloor>))" by simp
next
  fix x :: rat
  assume "\<not> x < 2"
  then have x: "2 \<le> x" by simp
  then have f: "2 \<le> \<lfloor>x\<rfloor>" by (simp add: le_floor_iff)
  have "x < of_int \<lfloor>x\<rfloor> + 1" by linarith
  with f have "x / 2 < of_int \<lfloor>x\<rfloor>" by linarith
  then have "\<lfloor>x / 2\<rfloor> < \<lfloor>x\<rfloor>" by (simp add: floor_less_iff)
  moreover from f have "0 < \<lfloor>x\<rfloor>" by simp
  ultimately show "(x / 2, x) \<in> measure (\<lambda>x. nat \<lfloor>x\<rfloor>)" by simp
qed

function log2_down :: "rat \<Rightarrow> nat" where
  "log2_down x = (if x \<le> 0 \<or> 1 \<le> x then 0 else Suc (log2_down (2 * x)))"
  by pat_completeness auto
termination
proof (relation "measure (\<lambda>x. nat \<lfloor>1 / x\<rfloor>)")
  show "wf (measure (\<lambda>x::rat. nat \<lfloor>1 / x\<rfloor>))" by simp
next
  fix x :: rat
  assume "\<not> (x \<le> 0 \<or> 1 \<le> x)"
  then have x: "0 < x" "x < 1" by simp_all
  define y where "y = 1 / x"
  from x have y: "1 < y" by (simp add: y_def)
  then have f: "1 \<le> \<lfloor>y\<rfloor>" by simp
  then have f': "(1 :: rat) \<le> of_int \<lfloor>y\<rfloor>" by linarith
  have "y < of_int \<lfloor>y\<rfloor> + 1" by linarith
  with f' have "y / 2 < of_int \<lfloor>y\<rfloor>" by linarith
  then have lt: "\<lfloor>y / 2\<rfloor> < \<lfloor>y\<rfloor>" by (simp add: floor_less_iff)
  have e: "1 / (2 * x) = y / 2" by (simp add: y_def)
  have e2: "1 / x = y" by (simp add: y_def)
  show "(2 * x, x) \<in> measure (\<lambda>x. nat \<lfloor>1 / x\<rfloor>)"
    unfolding in_measure e e2 using lt f by simp
qed

definition ilog2 :: "rat \<Rightarrow> int" where
  "ilog2 x = (if 1 \<le> x then int (log2_up x) else - int (log2_down x))"

definition ulp :: "rat \<Rightarrow> rat" where
  "ulp x = 2 powi (ilog2 \<bar>x\<bar> - 52)"

definition fl :: "rat \<Rightarrow> rat" where
  "fl x =
     (if x = 0 then 0
      else sgn x * (of_int (round_half_even (\<bar>x\<bar> / ulp x)) * ulp x))"

definition fadd :: "rat \<Rightarrow> rat \<Rightarrow> rat" where
  "fadd a b = fl (a + b)"

definition fsub :: "rat \<Rightarrow> rat \<Rightarrow> rat" where
  "fsub a b = fl (a - b)"

text \<open>The divisors of the script are the constants 25.4 and 100: never zero.\<close>

definition fdiv :: "rat \<Rightarrow> rat \<Rightarrow> rat" where
  "fdiv a b = fl (a / b)"

text \<open>
  \<^verbatim>\<open>round(x, n)\<close> on a double: the exact value of \<open>x\<close> is rounded to \<open>n\<close>
  decimals, a tie going to the even neighbour, and the decimal result is read back as
  the nearest double.
\<close>

definition py_round :: "rat \<Rightarrow> nat \<Rightarrow> rat" where
  "py_round x n = fl (of_int (round_half_even (x * 10 ^ n)) / 10 ^ n)"

section \<open>Time\<close>

text \<open>
  An instant is an integer number of microseconds since the epoch (the resolution of
  \<^verbatim>\<open>datetime\<close>); a \<^verbatim>\<open>timedelta\<close> is a number of microseconds as well.
  \<^verbatim>\<open>datetime.now()\<close> returns a naive value, the reading of the local wall clock:
  the same count of microseconds, of the wall-clock time taken as if it were UTC.
  \<^verbatim>\<open>.astimezone()\<close> on a naive value attaches the local zone: the instant it
  denotes is the wall-clock reading minus the UTC offset that the zone gives to that
  wall-clock time. The zone is the parameter \<open>tz\<close>. The script subtracts a
  \<^verbatim>\<open>timedelta\<close> from the naive reading first and attaches the zone afterwards.
\<close>

type_synonym instant = int

definition timedelta_hours :: "int \<Rightarrow> int" where
  "timedelta_hours h = h * 3600000000"

definition timedelta_days :: "int \<Rightarrow> int" where
  "timedelta_days d = d * 86400000000"

definition astimezone :: "(int \<Rightarrow> int) \<Rightarrow> int \<Rightarrow> instant" where
  "astimezone tz naive = naive - tz naive"

text \<open>
  An aware \<^verbatim>\<open>datetime\<close>, as \<^verbatim>\<open>datetime.fromisoformat\<close> returns it for a
  timestamp with an offset: comparisons and differences use the instant,
  \<^verbatim>\<open>.date()\<close> is the calendar day of the wall-clock time at the value's own offset
  (a day number, counted from the epoch). \<^verbatim>\<open>total_seconds()\<close> divides a whole
  number of microseconds by \<open>10\<^sup>6\<close>; the quotients the script compares with each
  other and with 3600 are below 3600 or are only tested against 3600, where distinct
  counts of microseconds give distinct doubles in the same order, so the comparisons
  are those of the integer counts.
\<close>

record datetime =
  instant :: instant
  utcoffset :: int

definition date :: "datetime \<Rightarrow> int" where
  "date t = (instant t + utcoffset t) div 86400000000"

text \<open>Truthiness of an optional number: \<^verbatim>\<open>None\<close> and \<^verbatim>\<open>0\<close> are false.\<close>

fun truthy :: "rat option \<Rightarrow> bool" where
  "truthy None = False"
| "truthy (Some x) = (x \<noteq> 0)"

section \<open>Errors\<close>

text \<open>
  Every exception the script raises or lets through is a subclass of
  \<^verbatim>\<open>Exception\<close>; \<open>str_error\<close> is \<^verbatim>\<open>str(e)\<close>. A failed HTTP request
  (\<^verbatim>\<open>requests.exceptions.RequestException\<close>) reaches the model as \<open>Inl msg\<close> in
  the response handed to a fetch function.
\<close>

datatype error =
    Exception string
  | FileNotFoundError string
  | TypeError string

fun str_error :: "error \<Rightarrow> string" where
  "str_error (Exception m) = m"
| "str_error (FileNotFoundError m) = m"
| "str_error (TypeError m) = m"

section \<open>Observations\<close>

text \<open>
  One element of \<^verbatim>\<open>data['features']\<close>, with its timestamp parsed. A quantity is
  \<open>None\<close> when the property is missing, is null, or has a null \<^verbatim>\<open>value\<close>:
  the three cases the guard
  \<^verbatim>\<open>precip and precip.get('value') is not None\<close> rejects. Otherwise it is the
  number as the JSON document writes it; Python reads it as the nearest double,
  \<open>fl v\<close>.
\<close>

record observation =
  timestamp :: datetime
  precipitationLastHour :: "rat option"
  barometricPressure :: "rat option"

section \<open>Precipitation\<close>

text \<open>
  \<^verbatim>\<open>daily_totals\<close> is a dict from date to millimetres; a dict keeps its keys in
  insertion order, so it is an association list with distinct keys.
  \<open>add_daily\<close> is
  \<^verbatim>\<open>if obs_date not in daily_totals: daily_totals[obs_date] = 0\<close> followed by
  \<^verbatim>\<open>daily_totals[obs_date] += precip_mm\<close>.
\<close>

fun add_daily :: "int \<Rightarrow> rat \<Rightarrow> (int \<times> rat) list \<Rightarrow> (int \<times> rat) list" where
  "add_daily d v [] = [(d, fadd 0 v)]"
| "add_daily d v ((k, w) # kvs) =
     (if k = d then (k, fadd w v) # kvs else (k, w) # add_daily d v kvs)"

record precip_state =
  total_precip_mm :: rat
  observation_count :: nat
  latest_observation :: "datetime option"
  daily_totals :: "(int \<times> rat) list"

definition precip_init :: precip_state where
  "precip_init =
     \<lparr>total_precip_mm = 0, observation_count = 0, latest_observation = None,
      daily_totals = []\<rparr>"

text \<open>
  The body of the \<^verbatim>\<open>for\<close> loop, after the seven-day test. \<open>cutoff_time\<close> is
  the instant \<^verbatim>\<open>cutoff_time.astimezone()\<close>.
\<close>

definition precip_step :: "instant \<Rightarrow> observation \<Rightarrow> precip_state \<Rightarrow> precip_state" where
  "precip_step cutoff_time obs s =
     (let obs_time = timestamp obs;
          s1 = (if latest_observation s = None
                then s\<lparr>latest_observation := Some obs_time\<rparr> else s)
      in case precipitationLastHour obs of
           None \<Rightarrow> s1
         | Some v \<Rightarrow>
             (let precip_mm = fl v;
                  s2 = (if cutoff_time \<le> instant obs_time
                        then s1\<lparr>total_precip_mm := fadd (total_precip_mm s1) precip_mm,
                                observation_count := observation_count s1 + 1\<rparr>
                        else s1)
              in s2\<lparr>daily_totals := add_daily (date obs_time) precip_mm (daily_totals s2)\<rparr>))"

text \<open>
  The loop: \<^verbatim>\<open>break\<close> at the first observation older than
  \<^verbatim>\<open>seven_days_ago.astimezone()\<close>.
\<close>

fun precip_loop ::
  "instant \<Rightarrow> instant \<Rightarrow> observation list \<Rightarrow> precip_state \<Rightarrow> precip_state" where
  "precip_loop cutoff_time seven_days_ago [] s = s"
| "precip_loop cutoff_time seven_days_ago (obs # rest) s =
     (if instant (timestamp obs) < seven_days_ago then s
      else precip_loop cutoff_time seven_days_ago rest (precip_step cutoff_time obs s))"

record precipitation_data =
  total_mm :: rat
  total_inches :: rat
  p_observation_count :: nat
  p_latest_observation :: "datetime option"
  station_id :: string
  daily_totals_inches :: "(int \<times> rat) list"

text \<open>
  \<^verbatim>\<open>sorted(daily_totals.items(), reverse=True)\<close> orders the (date, mm) pairs
  downwards; the dict comprehension keeps that order.
\<close>

definition inches_of_daily :: "(int \<times> rat) list \<Rightarrow> (int \<times> rat) list" where
  "inches_of_daily kvs =
     map (\<lambda>(d, mm). (d, py_round (fdiv mm (fl (254 / 10))) 2)) (rev (sort kvs))"

definition summarise_precipitation ::
  "string \<Rightarrow> precip_state \<Rightarrow> precipitation_data" where
  "summarise_precipitation sid s =
     (let total_precip_inches = fdiv (total_precip_mm s) (fl (254 / 10))
      in \<lparr>total_mm = py_round (total_precip_mm s) 2,
          total_inches = py_round total_precip_inches 2,
          p_observation_count = observation_count s,
          p_latest_observation = latest_observation s,
          station_id = sid,
          daily_totals_inches = inches_of_daily (daily_totals s)\<rparr>)"

text \<open>
  \<open>response\<close> is what the GET of the station's observations gives: the list
  \<^verbatim>\<open>data['features']\<close>, or the message of a \<^verbatim>\<open>RequestException\<close>.
  The function reads the clock twice: \<open>now_cutoff\<close> for the cutoff and
  \<open>now_horizon\<close> for the seven days.
\<close>

definition get_precipitation_data ::
  "string + observation list \<Rightarrow> (int \<Rightarrow> int) \<Rightarrow> int \<Rightarrow> int \<Rightarrow> string \<Rightarrow> int
     \<Rightarrow> error + precipitation_data" where
  "get_precipitation_data response tz now_cutoff now_horizon sid hours =
     (case response of
        Inl e \<Rightarrow> Inl (Exception (''Error fetching precipitation data: '' @ e))
      | Inr observations \<Rightarrow>
          (let cutoff_time = now_cutoff - timedelta_hours hours;
               seven_days_ago = now_horizon - timedelta_days 7
           in Inr (summarise_precipitation sid
                     (precip_loop (astimezone tz cutoff_time) (astimezone tz seven_days_ago)
                        observations precip_init))))"

section \<open>Barometric pressure\<close>

text \<open>
  The loop of \<^verbatim>\<open>get_pressure_data\<close>. \<^verbatim>\<open>current_pressure\<close> and
  \<^verbatim>\<open>current_time\<close> are assigned together, and so are
  \<^verbatim>\<open>yesterday_pressure\<close> and \<^verbatim>\<open>yesterday_time\<close>: the state keeps each
  couple as one optional pair, \<open>None\<close> while the pressure is \<^verbatim>\<open>None\<close>.
  \<open>yesterday\<close> is the instant \<^verbatim>\<open>yesterday.astimezone()\<close>.
\<close>

record pressure_state =
  cur :: "(rat \<times> datetime) option"
  yest :: "(rat \<times> datetime) option"

definition pressure_init :: pressure_state where
  "pressure_init = \<lparr>cur = None, yest = None\<rparr>"

definition pressure_step :: "instant \<Rightarrow> observation \<Rightarrow> pressure_state \<Rightarrow> pressure_state" where
  "pressure_step yesterday obs s =
     (let obs_time = timestamp obs
      in case barometricPressure obs of
           None \<Rightarrow> s
         | Some pressure_pa \<Rightarrow>
             (let pressure_hpa = fdiv (fl pressure_pa) 100;
                  s1 = (if cur s = None then s\<lparr>cur := Some (pressure_hpa, obs_time)\<rparr> else s);
                  time_diff = \<bar>instant obs_time - yesterday\<bar>
              in if time_diff < 3600000000
                 then (if (case yest s1 of
                             None \<Rightarrow> True
                           | Some (y_pressure, y_time) \<Rightarrow>
                               time_diff < \<bar>instant y_time - yesterday\<bar>)
                       then s1\<lparr>yest := Some (pressure_hpa, obs_time)\<rparr>
                       else s1)
                 else s1))"

fun pressure_loop :: "instant \<Rightarrow> observation list \<Rightarrow> pressure_state \<Rightarrow> pressure_state" where
  "pressure_loop yesterday [] s = s"
| "pressure_loop yesterday (obs # rest) s =
     pressure_loop yesterday rest (pressure_step yesterday obs s)"

record pressure_data =
  current_pressure :: "rat option"
  yesterday_pressure :: "rat option"
  pressure_change :: "rat option"
  current_time :: "datetime option"
  yesterday_time :: "datetime option"

text \<open>\<^verbatim>\<open>round(x, 1) if x else None\<close>\<close>

definition round1_if :: "rat option \<Rightarrow> rat option" where
  "round1_if x = (if truthy x then map_option (\<lambda>v. py_round v 1) x else None)"

definition summarise_pressure :: "pressure_state \<Rightarrow> pressure_data" where
  "summarise_pressure s =
     (let cp = map_option fst (cur s);
          yp = map_option fst (yest s);
          change =
            (if truthy cp \<and> truthy yp
             then (case (cp, yp) of
                     (Some c, Some y) \<Rightarrow> Some (fsub c y)
                   | _ \<Rightarrow> None)
             else None)
      in \<lparr>current_pressure = round1_if cp,
          yesterday_pressure = round1_if yp,
          pressure_change = round1_if change,
          current_time = map_option snd (cur s),
          yesterday_time = map_option snd (yest s)\<rparr>)"

definition get_pressure_data ::
  "string + observation list \<Rightarrow> (int \<Rightarrow> int) \<Rightarrow> int \<Rightarrow> error + pressure_data" where
  "get_pressure_data response tz now =
     (case response of
        Inl e \<Rightarrow> Inl (Exception (''Error fetching pressure data: '' @ e))
      | Inr observations \<Rightarrow>
          (let yesterday = now - timedelta_days 1
           in Inr (summarise_pressure
                     (pressure_loop (astimezone tz yesterday) observations pressure_init))))"

section \<open>Station and forecast\<close>

text \<open>
  \<open>response\<close> holds the \<^verbatim>\<open>stationIdentifier\<close> of each feature of the
  stations document; a failure of either GET is \<open>Inl\<close>.
\<close>

definition get_nws_observation_station :: "string + string list \<Rightarrow> error + string" where
  "get_nws_observation_station response =
     (case response of
        Inl e \<Rightarrow> Inl (Exception (''Error fetching NWS station: '' @ e))
      | Inr features \<Rightarrow>
          (case features of
             [] \<Rightarrow> Inl (Exception ''No observation stations found for this location'')
           | station # _ \<Rightarrow> Inr station))"

record period =
  name :: string
  temperature :: int
  temperatureUnit :: string
  windSpeed :: string
  windDirection :: string
  shortForecast :: string
  detailedForecast :: string

record forecast =
  f_name :: string
  f_temperature :: int
  f_temperature_unit :: string
  f_wind_speed :: string
  f_wind_direction :: string
  f_short_forecast :: string
  f_detailed_forecast :: string

definition get_forecast :: "string + period list \<Rightarrow> error + forecast option" where
  "get_forecast response =
     (case response of
        Inl e \<Rightarrow> Inl (Exception (''Error fetching forecast: '' @ e))
      | Inr periods \<Rightarrow>
          (case periods of
             [] \<Rightarrow> Inr None
           | today # _ \<Rightarrow>
               Inr (Some \<lparr>f_name = name today,
                          f_temperature = temperature today,
                          f_temperature_unit = temperatureUnit today,
                          f_wind_speed = windSpeed today,
                          f_wind_direction = windDirection today,
                          f_short_forecast = shortForecast today,
                          f_detailed_forecast = detailedForecast today\<rparr>)))"

section \<open>Configuration and e-mail\<close>

text \<open>
  The value under \<^verbatim>\<open>to_emails\<close> is a string or a list of strings; a key that is
  absent from the \<^verbatim>\<open>[email]\<close> table is \<open>None\<close>.
\<close>

datatype recipients_value = Str string | StrList "string list"

record email_config =
  to_emails :: "recipients_value option"
  to_email :: "string option"
  from_email :: string
  smtp_host :: string
  smtp_port :: int
  smtp_username :: string
  smtp_password :: string

record location_config =
  latitude :: rat
  longitude :: rat

record sprinkler_config =
  hours_to_check :: int
  threshold :: rat
  pressure_change_threshold :: "rat option"

record config =
  location :: location_config
  sprinkler :: sprinkler_config
  email :: email_config

text \<open>The choice of the recipients at the head of \<^verbatim>\<open>send_email\<close>.\<close>

definition recipients :: "email_config \<Rightarrow> error + string list" where
  "recipients email_config =
     (case to_emails email_config of
        Some v \<Rightarrow> (case v of Str s \<Rightarrow> Inr [s] | StrList l \<Rightarrow> Inr l)
      | None \<Rightarrow>
          (case to_email email_config of
             Some s \<Rightarrow> Inr [s]
           | None \<Rightarrow>
               Inl (Exception
                 ''No recipient email configured. Use 'to_emails' (list) or 'to_email' (string) in config'')))"

fun join_comma :: "string list \<Rightarrow> string" where
  "join_comma [] = []"
| "join_comma [s] = s"
| "join_comma (s # t # ss) = s @ '', '' @ join_comma (t # ss)"

record message =
  msg_from :: string
  msg_to :: string
  msg_subject :: string
  msg_body :: string

text \<open>
  \<open>smtp\<close> stands for the SMTP session: \<open>None\<close> when the message was accepted,
  \<open>Some e\<close> when anything inside the \<^verbatim>\<open>with\<close> block raised. On success the model
  returns the recipient list and the message that went out.
\<close>

definition send_email ::
  "(message \<Rightarrow> string option) \<Rightarrow> config \<Rightarrow> string \<Rightarrow> string \<Rightarrow> error + (string list \<times> message)" where
  "send_email smtp config subject body =
     (let email_config = email config
      in case recipients email_config of
           Inl e \<Rightarrow> Inl e
         | Inr recips \<Rightarrow>
             (let msg = \<lparr>msg_from = from_email email_config,
                         msg_to = join_comma recips,
                         msg_subject = subject,
                         msg_body = body\<rparr>
              in case smtp msg of
                   Some e \<Rightarrow> Inl (Exception (''Error sending email: '' @ e))
                 | None \<Rightarrow> Inr (recips, msg)))"

section \<open>The report and the run\<close>

text \<open>
  How Python prints a number or a date (\<^verbatim>\<open>str\<close>, the format specifications
  \<^verbatim>\<open>:.2f\<close>, \<^verbatim>\<open>:.1f\<close>, \<^verbatim>\<open>:+.1f\<close>, \<^verbatim>\<open>strftime\<close>,
  \<^verbatim>\<open>str.upper\<close>) belongs to the language's library: the rendering functions are
  parameters of the report.
\<close>

record fmt =
  fmt_2f :: "rat \<Rightarrow> string"
  fmt_1f :: "rat \<Rightarrow> string"
  fmt_plus_1f :: "rat \<Rightarrow> string"
  str_num :: "rat \<Rightarrow> string"
  str_int :: "int \<Rightarrow> string"
  str_datetime :: "datetime option \<Rightarrow> string"
  strftime_date :: "int \<Rightarrow> string"
  strftime_now :: "instant \<Rightarrow> string"
  upper :: "string \<Rightarrow> string"

definition nl :: string where
  "nl = [CHR 0x0A]"

fun join_nl :: "string list \<Rightarrow> string" where
  "join_nl [] = []"
| "join_nl [s] = s"
| "join_nl (s # t # ss) = s @ nl @ join_nl (t # ss)"

text \<open>
  The recommendation and its mark (the UTF-8 bytes of the check mark U+2713 and of
  the ballot cross U+2717).
\<close>

definition recommend :: "rat \<Rightarrow> rat \<Rightarrow> string \<times> string" where
  "recommend total_precip thr =
     (if thr \<le> total_precip
      then (''NO - Sufficient rainfall'', [CHR 0xE2, CHR 0x9C, CHR 0x93])
      else (''YES - Run sprinkler'', [CHR 0xE2, CHR 0x9C, CHR 0x97]))"

definition daily_totals_text :: "fmt \<Rightarrow> (int \<times> rat) list \<Rightarrow> string" where
  "daily_totals_text F daily =
     (let daily_summary =
            map (\<lambda>(d, inches). ''  '' @ strftime_date F d @ '': '' @ fmt_2f F inches @ '' inches'')
              daily
      in if daily_summary \<noteq> [] then join_nl daily_summary else ''  No data available'')"

text \<open>Significance and trend of a pressure change that is reported.\<close>

definition significance_trend :: "rat \<Rightarrow> rat \<Rightarrow> string \<times> string" where
  "significance_trend pressure_threshold change =
     (let abs_change = \<bar>change\<bar>
      in if pressure_threshold \<le> abs_change \<and> change < 0
         then (''SIGNIFICANT'', ''falling'')
         else (''normal'', if 0 < change then ''rising'' else ''falling slightly''))"

text \<open>
  The pressure section. Formatting \<^verbatim>\<open>None\<close> with \<^verbatim>\<open>:.1f\<close> raises
  \<^verbatim>\<open>TypeError\<close>.
\<close>

definition pressure_text :: "fmt \<Rightarrow> rat \<Rightarrow> pressure_data \<Rightarrow> error + string" where
  "pressure_text F pressure_threshold pd =
     (if truthy (current_pressure pd) \<and> pressure_change pd \<noteq> None
      then (case (pressure_change pd, current_pressure pd, yesterday_pressure pd) of
              (Some change, Some c, Some y) \<Rightarrow>
                (let (significance, trend) = significance_trend pressure_threshold change
                 in Inr (''  Current: '' @ fmt_1f F c @ '' hPa'' @ nl @
                         ''  24h ago: '' @ fmt_1f F y @ '' hPa'' @ nl @
                         ''  Change: '' @ fmt_plus_1f F change @ '' hPa ('' @
                            significance @ '' - '' @ trend @ '')'' @ nl @
                         ''  Migraines are commonly triggered with pressures <1007 hPa or changes >6 hPa.'' @ nl @
                         ''  ''))
            | _ \<Rightarrow> Inl (TypeError ''unsupported format string passed to NoneType.__format__''))
      else Inr ''  Data unavailable'')"

definition forecast_text :: "fmt \<Rightarrow> forecast option \<Rightarrow> string" where
  "forecast_text F fc =
     (case fc of
        Some f \<Rightarrow>
          upper F (f_name f) @ '':'' @ nl @
          ''  Temperature: '' @ str_int F (f_temperature f) @ [CHR 0xC2, CHR 0xB0] @
             f_temperature_unit f @ nl @
          ''  Wind: '' @ f_wind_speed f @ '' '' @ f_wind_direction f @ nl @
          ''  Conditions: '' @ f_short_forecast f @ nl @
          nl @
          ''  '' @ f_detailed_forecast f
      | None \<Rightarrow> ''  Forecast unavailable'')"

definition email_body ::
  "fmt \<Rightarrow> config \<Rightarrow> string \<Rightarrow> precipitation_data \<Rightarrow> string \<Rightarrow> string \<Rightarrow> string \<Rightarrow> string \<Rightarrow> string
     \<Rightarrow> instant \<Rightarrow> string" where
  "email_body F cfg sid precip_data emoji recommendation p_text f_text d_text now =
     ''Overnight Precipitation Report'' @ nl @
     replicate 50 CHR ''='' @ nl @
     nl @
     ''Time Period: Last '' @ str_int F (hours_to_check (sprinkler cfg)) @ '' hours'' @ nl @
     ''Location: '' @ str_num F (latitude (location cfg)) @ '', '' @
        str_num F (longitude (location cfg)) @ nl @
     ''Weather Station: '' @ sid @ nl @
     nl @
     ''PRECIPITATION TOTAL:'' @ nl @
     ''  '' @ fmt_2f F (total_inches precip_data) @ '' inches ('' @
        fmt_2f F (total_mm precip_data) @ '' mm)'' @ nl @
     nl @
     ''RUN SPRINKLER TODAY?'' @ nl @
     ''  '' @ emoji @ '' '' @ recommendation @ nl @
     nl @
     ''BAROMETRIC PRESSURE (24-hour change):'' @ nl @
     p_text @ nl @
     nl @
     ''FORECAST:'' @ nl @
     f_text @ nl @
     nl @
     ''LAST 7 DAYS (Daily Totals):'' @ nl @
     d_text @ nl @
     nl @
     ''Details:'' @ nl @
     ''  - Threshold: '' @ str_num F (threshold (sprinkler cfg)) @ '' inches'' @ nl @
     ''  - Hours of precipitation: '' @ str_int F (int (p_observation_count precip_data)) @ nl @
     ''  - Latest observation: '' @ str_datetime F (p_latest_observation precip_data) @ nl @
     nl @
     replicate 50 CHR ''='' @ nl @
     ''Generated at: '' @ strftime_now F now @ nl"

text \<open>
  What the run meets outside the process: the configuration file (read again by the
  error handler), the answers of the weather service, the local zone, the successive
  readings of the wall clock (\<open>clock w n\<close> is the reading of the \<open>n\<close>-th call of
  \<^verbatim>\<open>datetime.now()\<close>, counted from 0) and the SMTP session.
  \<open>config_file\<close> holds the tables of \<^verbatim>\<open>config.toml\<close> with the numbers as the
  file writes them, or the exception of \<^verbatim>\<open>load_config\<close>.
\<close>

record world =
  config_file :: "error + config"
  stations_response :: "string + string list"
  precipitation_response :: "string + observation list"
  pressure_response :: "string + observation list"
  forecast_response :: "string + period list"
  zone :: "int \<Rightarrow> int"
  clock :: "nat \<Rightarrow> int"
  smtp_session :: "message \<Rightarrow> string option"

text \<open>
  \<^verbatim>\<open>tomllib.load\<close> reads a number with a fraction as the nearest double; an
  integer of the file is below \<open>2\<^sup>5\<^sup>3\<close> and is its own double.
\<close>

definition parsed :: "config \<Rightarrow> config" where
  "parsed cfg =
     cfg\<lparr>location := \<lparr>latitude = fl (latitude (location cfg)),
                       longitude = fl (longitude (location cfg))\<rparr>,
         sprinkler := (sprinkler cfg)
           \<lparr>threshold := fl (threshold (sprinkler cfg)),
            pressure_change_threshold :=
              map_option fl (pressure_change_threshold (sprinkler cfg))\<rparr>\<rparr>"

definition load_config :: "world \<Rightarrow> error + config" where
  "load_config w = (case config_file w of Inl e \<Rightarrow> Inl e | Inr cfg \<Rightarrow> Inr (parsed cfg))"

text \<open>\<^verbatim>\<open>sprinkler.get('pressure_change_threshold', 6)\<close>\<close>

definition pressure_threshold_of :: "sprinkler_config \<Rightarrow> rat" where
  "pressure_threshold_of sc = (case pressure_change_threshold sc of None \<Rightarrow> 6 | Some t \<Rightarrow> t)"

text \<open>The body of the \<^verbatim>\<open>try\<close> block of \<^verbatim>\<open>main\<close>.\<close>

definition run :: "fmt \<Rightarrow> world \<Rightarrow> error + (string list \<times> message)" where
  "run F w =
     (case load_config w of
        Inl e \<Rightarrow> Inl e
      | Inr cfg \<Rightarrow>
     (case get_nws_observation_station (stations_response w) of
        Inl e \<Rightarrow> Inl e
      | Inr sid \<Rightarrow>
     (case get_precipitation_data (precipitation_response w) (zone w) (clock w 0) (clock w 1)
             sid (hours_to_check (sprinkler cfg)) of
        Inl e \<Rightarrow> Inl e
      | Inr precip_data \<Rightarrow>
     (case get_pressure_data (pressure_response w) (zone w) (clock w 2) of
        Inl e \<Rightarrow> Inl e
      | Inr pd \<Rightarrow>
     (case get_forecast (forecast_response w) of
        Inl e \<Rightarrow> Inl e
      | Inr fc \<Rightarrow>
          (let (recommendation, emoji) =
                 recommend (total_inches precip_data) (threshold (sprinkler cfg));
               d_text = daily_totals_text F (daily_totals_inches precip_data);
               pressure_threshold = pressure_threshold_of (sprinkler cfg)
           in case pressure_text F pressure_threshold pd of
                Inl e \<Rightarrow> Inl e
              | Inr p_text \<Rightarrow>
                  send_email (smtp_session w) cfg ''Weather update!''
                    (email_body F cfg sid precip_data emoji recommendation p_text
                       (forecast_text F fc) d_text (clock w 3))))))))"

text \<open>
  \<^verbatim>\<open>main\<close>: the exit status and the messages that were delivered. On any
  exception the handler reloads the configuration and tries once to mail the error;
  a failure there is swallowed.
\<close>

definition main :: "fmt \<Rightarrow> world \<Rightarrow> int \<times> message list" where
  "main F w =
     (case run F w of
        Inr (recips, msg) \<Rightarrow> (0, [msg])
      | Inl e \<Rightarrow>
          (let error_msg = ''Error: '' @ str_error e
           in case load_config w of
                Inl e2 \<Rightarrow> (1, [])
              | Inr cfg \<Rightarrow>
                  (case send_email (smtp_session w) cfg ''Weather update - ERROR'' error_msg of
                     Inl e2 \<Rightarrow> (1, [])
                   | Inr (recips, msg) \<Rightarrow> (1, [msg]))))"

section \<open>The aggregates in the words of the specification\<close>

text \<open>
  The observations the aggregator consumes are those before the first one older than
  the horizon; the recent window holds the consumed observations that carry a
  precipitation value and are not older than the cutoff; a day holds the consumed
  observations that carry a value and fall on that calendar date. An aggregate is the
  sum of the values as doubles, added one after the other in the order of the
  sequence.
\<close>

definition precip_of :: "observation \<Rightarrow> rat" where
  "precip_of obs = (case precipitationLastHour obs of None \<Rightarrow> 0 | Some v \<Rightarrow> fl v)"

definition fsum :: "rat \<Rightarrow> rat list \<Rightarrow> rat" where
  "fsum a xs = foldl fadd a xs"

definition spec_consumed :: "instant \<Rightarrow> observation list \<Rightarrow> observation list" where
  "spec_consumed horizon observations =
     takeWhile (\<lambda>obs. horizon \<le> instant (timestamp obs)) observations"

definition spec_window :: "instant \<Rightarrow> instant \<Rightarrow> observation list \<Rightarrow> observation list" where
  "spec_window cutoff horizon observations =
     filter (\<lambda>obs. precipitationLastHour obs \<noteq> None \<and> cutoff \<le> instant (timestamp obs))
       (spec_consumed horizon observations)"

definition spec_day :: "int \<Rightarrow> instant \<Rightarrow> observation list \<Rightarrow> observation list" where
  "spec_day d horizon observations =
     filter (\<lambda>obs. precipitationLastHour obs \<noteq> None \<and> date (timestamp obs) = d)
       (spec_consumed horizon observations)"

definition spec_window_mm :: "instant \<Rightarrow> instant \<Rightarrow> observation list \<Rightarrow> rat" where
  "spec_window_mm cutoff horizon observations =
     fsum 0 (map precip_of (spec_window cutoff horizon observations))"

definition spec_day_mm :: "int \<Rightarrow> instant \<Rightarrow> observation list \<Rightarrow> rat" where
  "spec_day_mm d horizon observations =
     fsum 0 (map precip_of (spec_day d horizon observations))"

text \<open>
  A 24h-ago candidate carries a pressure value and lies less than one hour from the
  mark, 24 hours before now.
\<close>

definition spec_candidate :: "instant \<Rightarrow> observation \<Rightarrow> bool" where
  "spec_candidate mark obs =
     (barometricPressure obs \<noteq> None \<and> \<bar>instant (timestamp obs) - mark\<bar> < 3600000000)"

text \<open>An observation stamped in UTC, for the worked examples.\<close>

abbreviation (input) utc_obs :: "int \<Rightarrow> rat option \<Rightarrow> rat option \<Rightarrow> observation" where
  "utc_obs t p q \<equiv>
     \<lparr>timestamp = \<lparr>instant = t, utcoffset = 0\<rparr>, precipitationLastHour = p,
      barometricPressure = q\<rparr>"

section \<open>Worked examples\<close>

text \<open>
  A configuration in the legacy format, renderings that print a fixed mark, a run
  in which every request succeeds and the forecast has no period, the zone of a
  machine that keeps UTC, and a zone that leaves daylight saving time on 3 November 2024 at 02:00 on the wall clock (UTC-4
  before, UTC-5 after).
\<close>

definition utc_zone :: "int \<Rightarrow> int" where
  "utc_zone naive = 0"

definition example_zone :: "int \<Rightarrow> int" where
  "example_zone naive =
     (if naive < 1730599200000000 then - 14400000000 else - 18000000000)"

definition example_fmt :: fmt where
  "example_fmt =
     \<lparr>fmt_2f = (\<lambda>x. ''n''), fmt_1f = (\<lambda>x. ''n''), fmt_plus_1f = (\<lambda>x. ''n''),
      str_num = (\<lambda>x. ''n''), str_int = (\<lambda>x. ''n''), str_datetime = (\<lambda>x. ''t''),
      strftime_date = (\<lambda>x. ''d''), strftime_now = (\<lambda>x. ''t''), upper = (\<lambda>x. x)\<rparr>"

definition example_email :: email_config where
  "example_email =
     \<lparr>to_emails = None, to_email = Some ''gardener@example.org'',
      from_email = ''weather@example.org'', smtp_host = ''smtp.example.org'',
      smtp_port = 587, smtp_username = ''weather'', smtp_password = ''secret''\<rparr>"

definition example_config :: config where
  "example_config =
     \<lparr>location = \<lparr>latitude = 47, longitude = - 122\<rparr>,
      sprinkler = \<lparr>hours_to_check = 12, threshold = 1 / 10, pressure_change_threshold = None\<rparr>,
      email = example_email\<rparr>"

definition example_world :: world where
  "example_world =
     \<lparr>config_file = Inr example_config,
      stations_response = Inr [''KSEA''],
      precipitation_response = Inr [],
      pressure_response = Inr [],
      forecast_response = Inr [],
      zone = utc_zone,
      clock = (\<lambda>n. 1730000000000000),
      smtp_session = (\<lambda>m. None)\<rparr>"

text \<open>
  The same run with two pressure readings, now and 24 hours ago: 1005 hPa after
  1013 hPa.
\<close>

definition example_pressure_world :: world where
  "example_pressure_world =
     example_world
       \<lparr>pressure_response :=
          Inr [utc_obs 1730000000000000 None (Some 100500),
               utc_obs 1729913600000000 None (Some 101300)]\<rparr>"

section \<open>Rounding to doubles\<close>

lemma rhe_of_int [simp]: "round_half_even (of_int m) = m"
  by (simp add: round_half_even_def)




lemma log2_up_bounds: "1 \<le> x \<Longrightarrow> 2 ^ log2_up x \<le> x \<and> x < 2 * 2 ^ log2_up x"
proof (induction x rule: log2_up.induct)
  case (1 x)
  show ?case
  proof (cases "x < 2")
    case True
    with "1.prems" show ?thesis by simp
  next
    case False
    then have "1 \<le> x / 2" by simp
    with "1.IH" False have "2 ^ log2_up (x / 2) \<le> x / 2 \<and> x / 2 < 2 * 2 ^ log2_up (x / 2)"
      by blast
    moreover from False have "log2_up x = Suc (log2_up (x / 2))"
      by (subst log2_up.simps) simp
    ultimately show ?thesis by simp
  qed
qed

lemma log2_down_bounds:
  "0 < x \<Longrightarrow> x < 1 \<Longrightarrow> 1 \<le> x * 2 ^ log2_down x \<and> x * 2 ^ log2_down x < 2"
proof (induction x rule: log2_down.induct)
  case (1 x)
  from "1.prems" have step: "log2_down x = Suc (log2_down (2 * x))"
    by (subst log2_down.simps) simp
  show ?case
  proof (cases "2 * x < 1")
    case True
    with "1.IH" "1.prems"
    have "1 \<le> 2 * x * 2 ^ log2_down (2 * x) \<and> 2 * x * 2 ^ log2_down (2 * x) < 2"
      by simp
    then show ?thesis unfolding step by (simp add: mult.assoc mult.left_commute)
  next
    case False
    then have "log2_down (2 * x) = 0"
      by (subst log2_down.simps) simp
    with False "1.prems" show ?thesis unfolding step by simp
  qed
qed

lemma powi2_Suc: "(2 :: rat) powi (e + 1) = 2 * 2 powi e"
  using power_int_add [of "2 :: rat" e 1] by simp

lemma ilog2_bounds:
  assumes "0 < x"
  shows "2 powi ilog2 x \<le> x" and "x < 2 powi (ilog2 x + 1)"
proof -
  have "2 powi ilog2 x \<le> x \<and> x < 2 * 2 powi ilog2 x"
  proof (cases "1 \<le> x")
    case True
    then have "ilog2 x = int (log2_up x)" by (simp add: ilog2_def)
    with log2_up_bounds [OF True] show ?thesis by simp
  next
    case False
    with assms have x: "0 < x" "x < 1" by simp_all
    define n where "n = log2_down x"
    have b: "1 \<le> x * 2 ^ n" "x * 2 ^ n < 2"
      using log2_down_bounds [OF x] by (simp_all add: n_def)
    have i: "ilog2 x = - int n" using False by (simp add: ilog2_def n_def)
    have p: "(2 :: rat) powi (- int n) = 1 / 2 ^ n"
      by (simp add: power_int_minus_divide)
    have pos: "(0 :: rat) < 2 ^ n" by simp
    have "1 / 2 ^ n \<le> x"
      using b(1) pos by (simp add: divide_le_eq)
    moreover have "x < 2 * (1 / 2 ^ n)"
      using b(2) pos by (simp add: less_divide_eq)
    ultimately show ?thesis unfolding i p by blast
  qed
  then show "2 powi ilog2 x \<le> x" and "x < 2 powi (ilog2 x + 1)"
    unfolding powi2_Suc by blast+
qed

lemma powi2_mono: "m \<le> n \<Longrightarrow> (2 :: rat) powi m \<le> 2 powi n"
  by (rule power_int_increasing) simp_all

lemma ilog2_unique:
  assumes "0 < x" "2 powi e \<le> x" "x < 2 powi (e + 1)"
  shows "ilog2 x = e"
proof (rule antisym)
  show "ilog2 x \<le> e"
  proof (rule ccontr)
    assume "\<not> ilog2 x \<le> e"
    then have "e + 1 \<le> ilog2 x" by simp
    then have "(2 :: rat) powi (e + 1) \<le> 2 powi ilog2 x" by (rule powi2_mono)
    with ilog2_bounds(1) [OF assms(1)] assms(3) show False by simp
  qed
  show "e \<le> ilog2 x"
  proof (rule ccontr)
    assume "\<not> e \<le> ilog2 x"
    then have "ilog2 x + 1 \<le> e" by simp
    then have "(2 :: rat) powi (ilog2 x + 1) \<le> 2 powi e" by (rule powi2_mono)
    with ilog2_bounds(2) [OF assms(1)] assms(2) show False by simp
  qed
qed




lemma fl_pos_eq: "0 < x \<Longrightarrow> fl x = of_int (round_half_even (x / ulp x)) * ulp x"
  by (simp add: fl_def)





lemma fl_0 [simp]: "fl 0 = 0"
  by (simp add: fl_def)










lemma fsum_Cons: "fsum a (x # xs) = fsum (fadd a x) xs"
  by (simp add: fsum_def)

lemma fsum_Nil: "fsum a [] = a"
  by (simp add: fsum_def)


section \<open>The precipitation loop\<close>

lemma precip_loop_fold:
  "precip_loop c h xs s = fold (precip_step c) (spec_consumed h xs) s"
  by (induction xs arbitrary: s) (auto simp: spec_consumed_def)

lemma total_precip_step:
  "total_precip_mm (precip_step c obs s) =
     (if precipitationLastHour obs \<noteq> None \<and> c \<le> instant (timestamp obs)
      then fadd (total_precip_mm s) (precip_of obs) else total_precip_mm s)"
  by (simp add: precip_step_def precip_of_def Let_def split: option.splits)


lemma daily_precip_step:
  "daily_totals (precip_step c obs s) =
     (case precipitationLastHour obs of
        None \<Rightarrow> daily_totals s
      | Some v \<Rightarrow> add_daily (date (timestamp obs)) (precip_of obs) (daily_totals s))"
  by (simp add: precip_step_def precip_of_def Let_def split: option.splits)

lemma fold_total:
  "total_precip_mm (fold (precip_step c) ys s) =
     fsum (total_precip_mm s) (map precip_of
        (filter (\<lambda>obs. precipitationLastHour obs \<noteq> None \<and> c \<le> instant (timestamp obs)) ys))"
  by (induction ys arbitrary: s) (simp_all add: total_precip_step fsum_Nil fsum_Cons)


lemma map_of_add_daily:
  "map_of (add_daily d v kvs) =
     (map_of kvs)(d \<mapsto> fadd (case map_of kvs d of None \<Rightarrow> 0 | Some w \<Rightarrow> w) v)"
  by (induction d v kvs rule: add_daily.induct) (auto simp: fun_eq_iff)

lemma keys_add_daily: "fst ` set (add_daily d v kvs) = insert d (fst ` set kvs)"
  by (induction d v kvs rule: add_daily.induct) auto

lemma distinct_add_daily:
  "distinct (map fst kvs) \<Longrightarrow> distinct (map fst (add_daily d v kvs))"
  by (induction d v kvs rule: add_daily.induct) (auto simp: keys_add_daily)

lemma fold_distinct:
  "distinct (map fst (daily_totals s)) \<Longrightarrow>
   distinct (map fst (daily_totals (fold (precip_step c) ys s)))"
  by (induction ys arbitrary: s)
     (auto simp: daily_precip_step distinct_add_daily split: option.splits)

lemma fold_keys:
  "fst ` set (daily_totals (fold (precip_step c) ys s)) =
     fst ` set (daily_totals s) \<union>
     {date (timestamp obs) | obs. obs \<in> set ys \<and> precipitationLastHour obs \<noteq> None}"
proof (induction ys arbitrary: s)
  case Nil
  then show ?case by simp
next
  case (Cons y ys)
  show ?case
  proof (cases "precipitationLastHour y")
    case None
    then show ?thesis using Cons.IH [of "precip_step c y s"]
      by (auto simp: daily_precip_step)
  next
    case (Some v)
    then show ?thesis using Cons.IH [of "precip_step c y s"]
      by (auto simp: daily_precip_step keys_add_daily)
  qed
qed

lemma fold_map_of:
  "map_of (daily_totals (fold (precip_step c) ys s)) d =
     (if d \<in> fst ` set (daily_totals s) \<or>
         (\<exists>obs \<in> set ys. precipitationLastHour obs \<noteq> None \<and> date (timestamp obs) = d)
      then Some (fsum (case map_of (daily_totals s) d of None \<Rightarrow> 0 | Some w \<Rightarrow> w)
                 (map precip_of
                   (filter (\<lambda>obs. precipitationLastHour obs \<noteq> None \<and> date (timestamp obs) = d) ys)))
      else None)"
proof (induction ys arbitrary: s)
  case Nil
  then show ?case
    by (auto simp: map_of_eq_None_iff fsum_Nil split: option.splits)
next
  case (Cons y ys)
  show ?case
  proof (cases "precipitationLastHour y")
    case None
    then show ?thesis using Cons.IH [of "precip_step c y s"]
      by (simp add: daily_precip_step)
  next
    case (Some v)
    have dt: "daily_totals (precip_step c y s) =
                add_daily (date (timestamp y)) (precip_of y) (daily_totals s)"
      using Some by (simp add: daily_precip_step)
    show ?thesis
    proof (cases "d = date (timestamp y)")
      case True
      then show ?thesis using Cons.IH [of "precip_step c y s"] Some
        by (simp add: dt keys_add_daily map_of_add_daily fsum_Cons)
    next
      case False
      then show ?thesis using Cons.IH [of "precip_step c y s"] Some
        by (simp add: dt keys_add_daily map_of_add_daily)
    qed
  qed
qed

lemma set_inches_of_daily:
  "set (inches_of_daily kvs) = (\<lambda>(d, mm). (d, py_round (fdiv mm (fl (254 / 10))) 2)) ` set kvs"
  by (simp add: inches_of_daily_def)

lemma keys_inches_of_daily: "fst ` set (inches_of_daily kvs) = fst ` set kvs"
  by (force simp: set_inches_of_daily)

lemma loop_total:
  "total_precip_mm (precip_loop c h xs precip_init) = spec_window_mm c h xs"
  by (simp add: precip_loop_fold fold_total spec_window_mm_def spec_window_def precip_init_def)


lemma loop_keys:
  "fst ` set (daily_totals (precip_loop c h xs precip_init)) =
     {date (timestamp obs) | obs. obs \<in> set (spec_consumed h xs) \<and> precipitationLastHour obs \<noteq> None}"
  by (simp add: precip_loop_fold fold_keys precip_init_def)

lemma loop_distinct: "distinct (map fst (daily_totals (precip_loop c h xs precip_init)))"
  by (simp add: precip_loop_fold fold_distinct precip_init_def)

lemma loop_map_of:
  "map_of (daily_totals (precip_loop c h xs precip_init)) d =
     (if spec_day d h xs \<noteq> [] then Some (spec_day_mm d h xs) else None)"
proof -
  have "(spec_day d h xs \<noteq> []) =
        (\<exists>obs \<in> set (spec_consumed h xs). precipitationLastHour obs \<noteq> None \<and> date (timestamp obs) = d)"
    by (simp add: spec_day_def filter_empty_conv)
  then show ?thesis
    by (simp add: precip_loop_fold fold_map_of precip_init_def spec_day_mm_def spec_day_def)
qed

lemma loop_daily_member:
  "(d, mm) \<in> set (daily_totals (precip_loop c h xs precip_init)) \<longleftrightarrow>
     spec_day d h xs \<noteq> [] \<and> mm = spec_day_mm d h xs"
proof -
  have "((d, mm) \<in> set (daily_totals (precip_loop c h xs precip_init))) =
        (map_of (daily_totals (precip_loop c h xs precip_init)) d = Some mm)"
    by (rule map_of_eq_Some_iff [symmetric]) (rule loop_distinct)
  also have "\<dots> = (spec_day d h xs \<noteq> [] \<and> mm = spec_day_mm d h xs)"
    unfolding loop_map_of by (cases "spec_day d h xs = []") (simp_all add: eq_commute)
  finally show ?thesis .
qed

lemma consumed_recent: "obs \<in> set (spec_consumed h xs) \<Longrightarrow> h \<le> instant (timestamp obs)"
  by (auto simp: spec_consumed_def dest: set_takeWhileD)

lemma consumed_subset: "obs \<in> set (spec_consumed h xs) \<Longrightarrow> obs \<in> set xs"
  by (auto simp: spec_consumed_def dest: set_takeWhileD)

lemma consumed_stop:
  "instant (timestamp old) < h \<Longrightarrow> spec_consumed h (pre @ old # rest) = spec_consumed h pre"
  by (induction pre) (auto simp: spec_consumed_def)

lemma loop_stop:
  "instant (timestamp old) < h \<Longrightarrow>
   precip_loop c h (pre @ old # rest) s = precip_loop c h pre s"
  by (simp add: precip_loop_fold consumed_stop)



lemma astimezone_shift:
  "tz (now - delta) = tz now \<Longrightarrow> astimezone tz (now - delta) = astimezone tz now - delta"
  by (simp add: astimezone_def)

lemma get_precipitation_data_Inr:
  "get_precipitation_data (Inr observations) tz now_cutoff now_horizon sid hours =
     Inr (summarise_precipitation sid
            (precip_loop (astimezone tz (now_cutoff - timedelta_hours hours))
               (astimezone tz (now_horizon - timedelta_days 7)) observations precip_init))"
  by (simp add: get_precipitation_data_def Let_def)

lemma summarise_fields:
  "total_mm (summarise_precipitation sid s) = py_round (total_precip_mm s) 2"
  "total_inches (summarise_precipitation sid s) =
     py_round (fdiv (total_precip_mm s) (fl (254 / 10))) 2"
  "p_observation_count (summarise_precipitation sid s) = observation_count s"
  "daily_totals_inches (summarise_precipitation sid s) = inches_of_daily (daily_totals s)"
  by (simp_all add: summarise_precipitation_def Let_def)

lemma result_daily_member:
  "(d, v) \<in> set (inches_of_daily (daily_totals (precip_loop c h xs precip_init))) \<longleftrightarrow>
     spec_day d h xs \<noteq> [] \<and> v = py_round (fdiv (spec_day_mm d h xs) (fl (254 / 10))) 2"
proof -
  have "(d, v) \<in> set (inches_of_daily (daily_totals (precip_loop c h xs precip_init))) \<longleftrightarrow>
        (\<exists>mm. (d, mm) \<in> set (daily_totals (precip_loop c h xs precip_init)) \<and>
              v = py_round (fdiv mm (fl (254 / 10))) 2)"
    unfolding set_inches_of_daily by force
  then show ?thesis
    unfolding loop_daily_member by blast
qed

section \<open>Values of the worked examples\<close>

text \<open>
  The double nearest to a number is found from a scaling that brings the number
  between \<open>2\<^sup>5\<^sup>2\<close> and \<open>2\<^sup>5\<^sup>3\<close> and from the integer nearest to the
  scaled number; the numbers that occur in the worked examples follow.
\<close>

lemma fl_scaled:
  assumes "2 ^ 52 \<le> x * 2 ^ k" "x * 2 ^ k < 2 ^ 53"
  shows "fl x = of_int (round_half_even (x * 2 ^ k)) / 2 ^ k"
proof -
  have p: "(0 :: rat) < 2 ^ k" by simp
  have "(0 :: rat) < 2 ^ 52" by simp
  with assms(1) have "0 < x * 2 ^ k" by linarith
  with p have x: "0 < x" by (simp add: zero_less_mult_iff)
  then have ax: "\<bar>x\<bar> = x" by simp
  have s: "(2 :: rat) powi (52 - int k) * 2 ^ k = 2 ^ 52"
    using power_int_add [of "2 :: rat" "52 - int k" "int k"] by simp
  have lo: "2 powi (52 - int k) \<le> x"
  proof -
    have "2 powi (52 - int k) * 2 ^ k \<le> x * 2 ^ k" unfolding s by (rule assms(1))
    with p show ?thesis by (simp only: mult_le_cancel_right_pos)
  qed
  have hi: "x < 2 powi (52 - int k + 1)"
  proof -
    have "x * 2 ^ k < 2 * (2 powi (52 - int k) * 2 ^ k)" unfolding s using assms(2) by simp
    then have "x * 2 ^ k < (2 * 2 powi (52 - int k)) * 2 ^ k" by (simp only: mult.assoc)
    with p have "x < 2 * 2 powi (52 - int k)" by (simp only: mult_less_cancel_right_pos)
    then show ?thesis unfolding powi2_Suc .
  qed
  have e: "ilog2 x = 52 - int k" using x lo hi by (rule ilog2_unique)
  have u: "ulp x = 1 / 2 ^ k"
    unfolding ulp_def ax e by (simp add: power_int_minus_divide)
  show ?thesis
    unfolding fl_pos_eq [OF x] u by simp
qed

lemma rhe_unique: "\<bar>x - of_int m\<bar> < 1 / 2 \<Longrightarrow> round_half_even x = m"
proof -
  assume a: "\<bar>x - of_int m\<bar> < 1 / 2"
  show ?thesis
  proof (cases "of_int m \<le> x")
    case True
    with a have "x < of_int m + 1" by linarith
    with True have f: "\<lfloor>x\<rfloor> = m" by (simp add: floor_unique)
    with a True show ?thesis by (simp add: round_half_even_def)
  next
    case False
    with a have "of_int (m - 1) \<le> x" "x < of_int (m - 1) + 1" by simp_all
    then have f: "\<lfloor>x\<rfloor> = m - 1" by (rule floor_unique)
    with a False show ?thesis by (simp add: round_half_even_def Let_def)
  qed
qed

lemma fl_value:
  "2 ^ 52 \<le> x * 2 ^ k \<Longrightarrow> x * 2 ^ k < 2 ^ 53 \<Longrightarrow> \<bar>x * 2 ^ k - of_int m\<bar> < 1 / 2 \<Longrightarrow>
   fl x = of_int m / 2 ^ k"
  by (simp add: fl_scaled rhe_unique)

lemma py_round_value:
  "\<bar>x * 10 ^ n - of_int m\<bar> < 1 / 2 \<Longrightarrow> py_round x n = fl (of_int m / 10 ^ n)"
  by (simp add: py_round_def rhe_unique)

lemma fl_neg: "fl (- x) = - fl x"
  by (simp add: fl_def ulp_def)

lemma rhe_numeral: "round_half_even (numeral n) = numeral n"
  using rhe_of_int [of "numeral n"] by simp

lemma rhe_neg_numeral: "round_half_even (- numeral n) = - numeral n"
  using rhe_of_int [of "- numeral n"] by simp

lemma rhe_0: "round_half_even 0 = 0"
  using rhe_of_int [of 0] by simp

lemma rhe_1: "round_half_even 1 = 1"
  using rhe_of_int [of 1] by simp

lemma fl_571957152676053_114391430535210592: "fl (571957152676053 / 114391430535210592) = 5764607523034235 / 1152921504606846976"
  using fl_value [of "571957152676053 / 114391430535210592" 60 5764607523034235] by simp

lemma fl_1_100: "fl (1 / 100) = 5764607523034235 / 576460752303423488"
  using fl_value [of "1 / 100" 59 5764607523034235] by simp

lemma fl_1_10: "fl (1 / 10) = 3602879701896397 / 36028797018963968"
  using fl_value [of "1 / 10" 56 7205759403792794] by simp

lemma fl_127_1000: "fl (127 / 1000) = 571957152676053 / 4503599627370496"
  using fl_value [of "127 / 1000" 55 4575657221408424] by simp

lemma fl_1: "fl 1 = 1"
  using fl_value [of "1" 52 4503599627370496] by simp

lemma fl_2: "fl 2 = 2"
  using fl_value [of "2" 51 4503599627370496] by simp

lemma fl_6: "fl 6 = 6"
  using fl_value [of "6" 50 6755399441055744] by simp

lemma fl_8: "fl 8 = 8"
  using fl_value [of "8" 49 4503599627370496] by simp

lemma fl_10: "fl 10 = 10"
  using fl_value [of "10" 49 5629499534213120] by simp

lemma fl_3574732204225331_140737488355328: "fl (3574732204225331 / 140737488355328) = 3574732204225331 / 140737488355328"
  using fl_value [of "3574732204225331 / 140737488355328" 48 7149464408450662] by simp

lemma fl_127_5: "fl (127 / 5) = 3574732204225331 / 140737488355328"
  using fl_value [of "127 / 5" 48 7149464408450662] by simp

lemma fl_47: "fl 47 = 47"
  using fl_value [of "47" 47 6614661952700416] by simp

lemma fl_3574732204225331_70368744177664: "fl (3574732204225331 / 70368744177664) = 3574732204225331 / 70368744177664"
  using fl_value [of "3574732204225331 / 70368744177664" 47 7149464408450662] by simp

lemma fl_254_5: "fl (254 / 5) = 3574732204225331 / 70368744177664"
  using fl_value [of "254 / 5" 47 7149464408450662] by simp

lemma fl_122: "fl 122 = 122"
  using fl_value [of "122" 46 8584986789675008] by simp

lemma fl_10001_10: "fl (10001 / 10) = 8796972631510221 / 8796093022208"
  using fl_value [of "10001 / 10" 43 8796972631510221] by simp

lemma fl_20003_20: "fl (20003 / 20) = 8797412436161331 / 8796093022208"
  using fl_value [of "20003 / 20" 43 8797412436161331] by simp

lemma fl_1005: "fl 1005 = 1005"
  using fl_value [of "1005" 43 8840073487319040] by simp

lemma fl_1010: "fl 1010 = 1010"
  using fl_value [of "1010" 43 8884053952430080] by simp

lemma fl_1013: "fl 1013 = 1013"
  using fl_value [of "1013" 43 8910442231496704] by simp

lemma fl_5066_5: "fl (5066 / 5) = 4456100725050573 / 4398046511104"
  using fl_value [of "5066 / 5" 43 8912201450101146] by simp

lemma fl_100015: "fl 100015 = 100015"
  using fl_value [of "100015" 36 6872978465751040] by simp

lemma fl_100500: "fl 100500 = 100500"
  using fl_value [of "100500" 36 6906307411968000] by simp

lemma fl_101000: "fl 101000 = 101000"
  using fl_value [of "101000" 36 6940667150336000] by simp

lemma fl_101300: "fl 101300 = 101300"
  using fl_value [of "101300" 36 6961282993356800] by simp

lemma fl_101320: "fl 101320 = 101320"
  using fl_value [of "101320" 36 6962657382891520] by simp

lemma rhe_144115188075855875_288230376151711744: "round_half_even (144115188075855875 / 288230376151711744) = 1"
  using rhe_unique [of "144115188075855875 / 288230376151711744" "1"] by simp

lemma rhe_89368305105633275_35184372088832: "round_half_even (89368305105633275 / 35184372088832) = 2540"
  using rhe_unique [of "89368305105633275 / 35184372088832" "2540"] by simp

lemma rhe_89368305105633275_17592186044416: "round_half_even (89368305105633275 / 17592186044416) = 5080"
  using rhe_unique [of "89368305105633275 / 17592186044416" "5080"] by simp

lemma rhe_43987062180806655_4398046511104: "round_half_even (43987062180806655 / 4398046511104) = 10001"
  using rhe_unique [of "43987062180806655 / 4398046511104" "10001"] by simp

lemma rhe_22280503625252865_2199023255552: "round_half_even (22280503625252865 / 2199023255552) = 10132"
  using rhe_unique [of "22280503625252865 / 2199023255552" "10132"] by simp

lemmas float_values =
  fl_571957152676053_114391430535210592 fl_1_100 fl_1_10 fl_127_1000 fl_1 fl_2 fl_6 fl_8
  fl_10 fl_3574732204225331_140737488355328 fl_127_5 fl_47
  fl_3574732204225331_70368744177664 fl_254_5 fl_122 fl_10001_10 fl_20003_20 fl_1005
  fl_1010 fl_1013 fl_5066_5 fl_100015 fl_100500 fl_101000 fl_101300 fl_101320
  rhe_144115188075855875_288230376151711744 rhe_89368305105633275_35184372088832
  rhe_89368305105633275_17592186044416 rhe_43987062180806655_4398046511104
  rhe_22280503625252865_2199023255552

lemmas precip_eval =
  get_precipitation_data_def astimezone_def utc_zone_def timedelta_hours_def timedelta_days_def
  precip_init_def precip_step_def Let_def date_def summarise_precipitation_def inches_of_daily_def

lemmas float_eval =
  fadd_def fsub_def fdiv_def py_round_def fl_neg rhe_numeral rhe_neg_numeral rhe_0 rhe_1 float_values

text \<open>
  Two roundings in which the double differs from the exact decimal: 0.127 mm is
  0.01 inches (the quotient as a double lies above 0.005), and 100015 Pa is 1000.1 hPa
  (the double nearest 1000.15 lies below it).
\<close>

lemma rounding_examples:
  "py_round (fdiv (fl (127 / 1000)) (fl (254 / 10))) 2 = fl (1 / 100)"
  "py_round (fdiv (fl 100015) 100) 1 = fl (10001 / 10)"
  by (simp_all add: float_eval)

lemmas spec_eval =
  spec_window_mm_def spec_day_mm_def spec_window_def spec_day_def spec_consumed_def fsum_def
  precip_of_def date_def timedelta_hours_def timedelta_days_def astimezone_def utc_zone_def

section \<open>The precipitation summary\<close>

text \<open>
  C5 (as amended). Provided the local UTC offset at the wall-clock times the script
  computes (the reading less the hours, the reading less seven days) is the offset at
  the reading, so that the cutoff and the horizon are the instants that many hours and
  seven days before the readings: \<open>total_mm\<close> is the recent-window aggregate in
  millimetres rounded to 2 decimals, \<open>total_inches\<close> is that aggregate, unrounded,
  divided by 25.4 and rounded to 2 decimals, and each value of the daily map is that
  day's own aggregate over the observations consumed within the horizon, divided by
  25.4 and rounded to 2 decimals.
\<close>

theorem totals_are_rounded_aggregates:
  assumes "tz (now_cutoff - timedelta_hours hours) = tz now_cutoff"
    and "tz (now_horizon - timedelta_days 7) = tz now_horizon"
  shows "\<exists>r. get_precipitation_data (Inr observations) tz now_cutoff now_horizon sid hours = Inr r
     \<and> total_mm r =
         py_round (spec_window_mm (astimezone tz now_cutoff - timedelta_hours hours)
                     (astimezone tz now_horizon - timedelta_days 7) observations) 2
     \<and> total_inches r =
         py_round (fdiv (spec_window_mm (astimezone tz now_cutoff - timedelta_hours hours)
                           (astimezone tz now_horizon - timedelta_days 7) observations)
                     (fl (254 / 10))) 2
     \<and> (\<forall>(d, v) \<in> set (daily_totals_inches r).
           v = py_round (fdiv (spec_day_mm d (astimezone tz now_horizon - timedelta_days 7)
                                 observations) (fl (254 / 10))) 2)"
proof -
  let ?h = "astimezone tz now_horizon - timedelta_days 7"
  let ?c = "astimezone tz now_cutoff - timedelta_hours hours"
  let ?r = "summarise_precipitation sid (precip_loop ?c ?h observations precip_init)"
  have 1: "get_precipitation_data (Inr observations) tz now_cutoff now_horizon sid hours = Inr ?r"
    unfolding get_precipitation_data_Inr astimezone_shift [OF assms(1)]
      astimezone_shift [OF assms(2)] ..
  have 2: "total_mm ?r = py_round (spec_window_mm ?c ?h observations) 2"
    by (simp add: summarise_fields loop_total)
  have 3: "total_inches ?r = py_round (fdiv (spec_window_mm ?c ?h observations) (fl (254 / 10))) 2"
    by (simp add: summarise_fields loop_total)
  have 4: "\<forall>(d, v) \<in> set (daily_totals_inches ?r).
           v = py_round (fdiv (spec_day_mm d ?h observations) (fl (254 / 10))) 2"
    unfolding summarise_fields using result_daily_member by blast
  from 1 2 3 4 show ?thesis by blast
qed

theorem totals_are_rounded_aggregates_witness:
  "utc_zone (1730000000000000 - timedelta_hours 12) = utc_zone 1730000000000000
   \<and> utc_zone (1730000000000000 - timedelta_days 7) = utc_zone 1730000000000000
   \<and> get_precipitation_data
     (Inr [utc_obs 1729996400000000 (Some (254 / 10)) None,
           utc_obs 1729974800000000 (Some (254 / 10)) None])
     utc_zone 1730000000000000 1730000000000000 ''KSEA'' 12 =
   Inr \<lparr>total_mm = fl (508 / 10), total_inches = 2, p_observation_count = 2,
        p_latest_observation = Some \<lparr>instant = 1729996400000000, utcoffset = 0\<rparr>,
        station_id = ''KSEA'', daily_totals_inches = [(20023, 1), (20022, 1)]\<rparr>
   \<and> (2 :: rat) =
       py_round (fdiv (spec_window_mm
                   (astimezone utc_zone 1730000000000000 - timedelta_hours 12)
                   (astimezone utc_zone 1730000000000000 - timedelta_days 7)
                   [utc_obs 1729996400000000 (Some (254 / 10)) None,
                    utc_obs 1729974800000000 (Some (254 / 10)) None]) (fl (254 / 10))) 2
   \<and> (1 :: rat) =
       py_round (fdiv (spec_day_mm 20023
                   (astimezone utc_zone 1730000000000000 - timedelta_days 7)
                   [utc_obs 1729996400000000 (Some (254 / 10)) None,
                    utc_obs 1729974800000000 (Some (254 / 10)) None]) (fl (254 / 10))) 2"
proof -
  let ?obs = "[utc_obs 1729996400000000 (Some (254 / 10)) None,
               utc_obs 1729974800000000 (Some (254 / 10)) None]"
  let ?r = "\<lparr>total_mm = fl (508 / 10), total_inches = 2, p_observation_count = 2,
        p_latest_observation = Some \<lparr>instant = 1729996400000000, utcoffset = 0\<rparr>,
        station_id = ''KSEA'', daily_totals_inches = [(20023, 1), (20022, 1)]\<rparr>"
  have z1: "utc_zone (1730000000000000 - timedelta_hours 12) = utc_zone 1730000000000000"
    and z2: "utc_zone (1730000000000000 - timedelta_days 7) = utc_zone 1730000000000000"
    by (simp_all add: utc_zone_def)
  have ev: "get_precipitation_data (Inr ?obs) utc_zone 1730000000000000 1730000000000000
              ''KSEA'' 12 = Inr ?r"
    by (simp add: precip_eval float_eval)
  from totals_are_rounded_aggregates [of utc_zone 1730000000000000 12 1730000000000000
      ?obs "''KSEA''", OF z1 z2]
  obtain r where r: "get_precipitation_data (Inr ?obs) utc_zone 1730000000000000
       1730000000000000 ''KSEA'' 12 = Inr r"
    and ti: "total_inches r =
         py_round (fdiv (spec_window_mm
                   (astimezone utc_zone 1730000000000000 - timedelta_hours 12)
                   (astimezone utc_zone 1730000000000000 - timedelta_days 7) ?obs)
                   (fl (254 / 10))) 2"
    and dl: "\<forall>(d, v) \<in> set (daily_totals_inches r).
           v = py_round (fdiv (spec_day_mm d
                   (astimezone utc_zone 1730000000000000 - timedelta_days 7) ?obs)
                   (fl (254 / 10))) 2"
    by blast
  from r have rr: "r = ?r" unfolding ev by simp
  from ti have t: "(2 :: rat) =
         py_round (fdiv (spec_window_mm
                   (astimezone utc_zone 1730000000000000 - timedelta_hours 12)
                   (astimezone utc_zone 1730000000000000 - timedelta_days 7) ?obs)
                   (fl (254 / 10))) 2"
    unfolding rr by simp
  have "(20023, 1) \<in> set (daily_totals_inches r)"
    unfolding rr by simp
  with dl have d: "(1 :: rat) =
         py_round (fdiv (spec_day_mm 20023
                   (astimezone utc_zone 1730000000000000 - timedelta_days 7) ?obs)
                   (fl (254 / 10))) 2"
    by fast
  show ?thesis
    by (intro conjI) (rule z1 z2 ev t d)+
qed

text \<open>
  C5, as stated, fails: on a machine that keeps UTC, with a single observation two days
  old carrying 25.4 mm and a window of 12 hours, the daily map sums to 1 inch while
  the recent-window aggregate, divided by 25.4 and rounded, is 0.
\<close>

theorem daily_sum_differs_from_window:
  "get_precipitation_data
     (Inr [utc_obs 1729827200000000 (Some (254 / 10)) None])
     utc_zone 1730000000000000 1730000000000000 ''KSEA'' 12 =
   Inr \<lparr>total_mm = 0, total_inches = 0, p_observation_count = 0,
        p_latest_observation = Some \<lparr>instant = 1729827200000000, utcoffset = 0\<rparr>,
        station_id = ''KSEA'', daily_totals_inches = [(20021, 1)]\<rparr>
   \<and> sum_list (map snd [(20021 :: int, 1 :: rat)]) \<noteq>
       py_round (fdiv (spec_window_mm
                   (astimezone utc_zone 1730000000000000 - timedelta_hours 12)
                   (astimezone utc_zone 1730000000000000 - timedelta_days 7)
                   [utc_obs 1729827200000000 (Some (254 / 10)) None]) (fl (254 / 10))) 2"
  by (simp add: precip_eval spec_eval float_eval)




text \<open>
  C7 (as amended). Provided the local UTC offset seven days before the reading of the
  wall clock is the offset at the reading, so that the horizon is the instant seven
  days before the run: every key of the daily map is the calendar date of an
  observation of the input that carries a precipitation value and is not older than
  the horizon (it may be stamped after the run: the code sets no upper end), so no
  key is a date before the date of the horizon; everything from the first observation
  older than the horizon on is ignored.
\<close>

theorem daily_keys_within_seven_days:
  assumes "get_precipitation_data (Inr observations) tz now_cutoff now_horizon sid hours = Inr r"
    and "tz (now_horizon - timedelta_days 7) = tz now_horizon"
  shows "(\<forall>d \<in> fst ` set (daily_totals_inches r).
            \<exists>obs \<in> set observations.
              precipitationLastHour obs \<noteq> None \<and> date (timestamp obs) = d \<and>
              astimezone tz now_horizon - timedelta_days 7 \<le> instant (timestamp obs) \<and>
              date ((timestamp obs)\<lparr>instant := astimezone tz now_horizon - timedelta_days 7\<rparr>) \<le> d)
       \<and> (\<forall>pre old rest.
            observations = pre @ old # rest \<and>
            instant (timestamp old) < astimezone tz now_horizon - timedelta_days 7
            \<longrightarrow> get_precipitation_data (Inr pre) tz now_cutoff now_horizon sid hours = Inr r)"
proof -
  let ?h = "astimezone tz now_horizon - timedelta_days 7"
  let ?c = "astimezone tz (now_cutoff - timedelta_hours hours)"
  have sh: "astimezone tz (now_horizon - timedelta_days 7) = ?h"
    using assms(2) by (rule astimezone_shift)
  from assms(1) have r: "r = summarise_precipitation sid (precip_loop ?c ?h observations precip_init)"
    unfolding get_precipitation_data_Inr sh by simp
  have keys: "fst ` set (daily_totals_inches r) =
        {date (timestamp obs) | obs.
           obs \<in> set (spec_consumed ?h observations) \<and> precipitationLastHour obs \<noteq> None}"
    unfolding r summarise_fields keys_inches_of_daily loop_keys ..
  have a: "\<exists>obs \<in> set observations.
              precipitationLastHour obs \<noteq> None \<and> date (timestamp obs) = d \<and>
              ?h \<le> instant (timestamp obs) \<and>
              date ((timestamp obs)\<lparr>instant := ?h\<rparr>) \<le> d"
    if "d \<in> fst ` set (daily_totals_inches r)" for d
  proof -
    from that obtain obs where o: "obs \<in> set (spec_consumed ?h observations)"
      "precipitationLastHour obs \<noteq> None" "d = date (timestamp obs)"
      unfolding keys by blast
    from o(1) have h: "?h \<le> instant (timestamp obs)" by (rule consumed_recent)
    then have "date ((timestamp obs)\<lparr>instant := ?h\<rparr>) \<le> date (timestamp obs)"
      by (simp add: date_def zdiv_mono1)
    with o h consumed_subset [OF o(1)] show ?thesis by blast
  qed
  have b: "get_precipitation_data (Inr pre) tz now_cutoff now_horizon sid hours = Inr r"
    if "observations = pre @ old # rest" "instant (timestamp old) < ?h" for pre old rest
    unfolding get_precipitation_data_Inr sh r that(1) loop_stop [OF that(2)] ..
  from a b show ?thesis by blast
qed

theorem daily_keys_within_seven_days_witness:
  "get_precipitation_data
     (Inr [utc_obs 1729996400000000 (Some (254 / 10)) None,
           utc_obs 1729308800000000 (Some (254 / 10)) None,
           utc_obs 1729992800000000 (Some (254 / 10)) None])
     utc_zone 1730000000000000 1730000000000000 ''KSEA'' 12 =
   Inr \<lparr>total_mm = fl (254 / 10), total_inches = 1, p_observation_count = 1,
        p_latest_observation = Some \<lparr>instant = 1729996400000000, utcoffset = 0\<rparr>,
        station_id = ''KSEA'', daily_totals_inches = [(20023, 1)]\<rparr>
   \<and> utc_zone (1730000000000000 - timedelta_days 7) = utc_zone 1730000000000000
   \<and> 20023 \<in> fst ` set (daily_totals_inches
        \<lparr>total_mm = fl (254 / 10), total_inches = 1, p_observation_count = 1,
        p_latest_observation = Some \<lparr>instant = 1729996400000000, utcoffset = 0\<rparr>,
        station_id = ''KSEA'', daily_totals_inches = [(20023, 1)]\<rparr>)
   \<and> (\<exists>obs \<in> set [utc_obs 1729996400000000 (Some (254 / 10)) None,
           utc_obs 1729308800000000 (Some (254 / 10)) None,
           utc_obs 1729992800000000 (Some (254 / 10)) None].
         precipitationLastHour obs \<noteq> None \<and> date (timestamp obs) = 20023 \<and>
         astimezone utc_zone 1730000000000000 - timedelta_days 7 \<le> instant (timestamp obs) \<and>
         date ((timestamp obs)\<lparr>instant := astimezone utc_zone 1730000000000000 - timedelta_days 7\<rparr>)
           \<le> 20023)
   \<and> instant (timestamp (utc_obs 1729308800000000 (Some (254 / 10)) None))
         < astimezone utc_zone 1730000000000000 - timedelta_days 7
   \<and> get_precipitation_data
        (Inr [utc_obs 1729996400000000 (Some (254 / 10)) None])
        utc_zone 1730000000000000 1730000000000000 ''KSEA'' 12 =
      Inr \<lparr>total_mm = fl (254 / 10), total_inches = 1, p_observation_count = 1,
        p_latest_observation = Some \<lparr>instant = 1729996400000000, utcoffset = 0\<rparr>,
        station_id = ''KSEA'', daily_totals_inches = [(20023, 1)]\<rparr>"
proof -
  let ?o1 = "utc_obs 1729996400000000 (Some (254 / 10)) None"
  let ?old = "utc_obs 1729308800000000 (Some (254 / 10)) None"
  let ?o2 = "utc_obs 1729992800000000 (Some (254 / 10)) None"
  let ?r = "\<lparr>total_mm = fl (254 / 10), total_inches = 1, p_observation_count = 1,
        p_latest_observation = Some \<lparr>instant = 1729996400000000, utcoffset = 0\<rparr>,
        station_id = ''KSEA'', daily_totals_inches = [(20023, 1)]\<rparr>"
  have ev: "get_precipitation_data (Inr [?o1, ?old, ?o2]) utc_zone 1730000000000000
              1730000000000000 ''KSEA'' 12 = Inr ?r"
    by (simp add: precip_eval float_eval)
  have z: "utc_zone (1730000000000000 - timedelta_days 7) = utc_zone 1730000000000000"
    by (simp add: utc_zone_def)
  have key: "20023 \<in> fst ` set (daily_totals_inches ?r)"
    by simp
  have old: "instant (timestamp ?old) < astimezone utc_zone 1730000000000000 - timedelta_days 7"
    by (simp add: timedelta_days_def astimezone_def utc_zone_def)
  have split: "[?o1, ?old, ?o2] = [?o1] @ ?old # [?o2]"
    by simp
  note K = daily_keys_within_seven_days [OF ev z, THEN conjunct1, THEN bspec, OF key]
  note S = daily_keys_within_seven_days [OF ev z, THEN conjunct2, THEN spec, THEN spec, THEN spec,
      THEN mp, OF conjI, OF split old]
  show ?thesis
    by (intro conjI) (rule ev z key K old S)+
qed

text \<open>
  C7, as stated, fails: on a machine that keeps UTC, an observation stamped two days
  after the reading of the clock is consumed, and its date is a key of the daily map,
  though it does not lie in the seven days before the run.
\<close>

theorem future_observation_is_a_key:
  "get_precipitation_data
     (Inr [utc_obs 1730172800000000 (Some (254 / 10)) None])
     utc_zone 1730000000000000 1730000000000000 ''KSEA'' 12 =
   Inr \<lparr>total_mm = fl (254 / 10), total_inches = 1, p_observation_count = 1,
        p_latest_observation = Some \<lparr>instant = 1730172800000000, utcoffset = 0\<rparr>,
        station_id = ''KSEA'', daily_totals_inches = [(20025, 1)]\<rparr>
   \<and> date (timestamp (utc_obs 1730172800000000 (Some (254 / 10)) None)) = 20025
   \<and> \<not> instant (timestamp (utc_obs 1730172800000000 (Some (254 / 10)) None))
         \<le> astimezone utc_zone 1730000000000000
   \<and> date \<lparr>instant = astimezone utc_zone 1730000000000000, utcoffset = 0\<rparr> = 20023"
  by (simp add: precip_eval spec_eval float_eval)

section \<open>The recommendation\<close>


section \<open>Barometric pressure\<close>

lemma yest_step:
  "yest (pressure_step y obs s) =
     (case barometricPressure obs of
        None \<Rightarrow> yest s
      | Some pa \<Rightarrow>
          if \<bar>instant (timestamp obs) - y\<bar> < 3600000000 \<and>
             (case yest s of
                None \<Rightarrow> True
              | Some (p0, t0) \<Rightarrow> \<bar>instant (timestamp obs) - y\<bar> < \<bar>instant t0 - y\<bar>)
          then Some (fdiv (fl pa) 100, timestamp obs) else yest s)"
  by (simp add: pressure_step_def Let_def split: option.splits)

lemma yest_step_keeps:
  assumes "yest s = Some pt0"
  shows "\<exists>pt. yest (pressure_step y obs s) = Some pt \<and>
           \<bar>instant (snd pt) - y\<bar> \<le> \<bar>instant (snd pt0) - y\<bar>"
  using assms by (cases "barometricPressure obs"; cases pt0) (simp_all add: yest_step)

lemma yest_step_candidate:
  assumes "spec_candidate y obs"
  shows "\<exists>pt. yest (pressure_step y obs s) = Some pt \<and>
           \<bar>instant (snd pt) - y\<bar> \<le> \<bar>instant (timestamp obs) - y\<bar>"
proof -
  from assms obtain pa where pa: "barometricPressure obs = Some pa"
    and near: "\<bar>instant (timestamp obs) - y\<bar> < 3600000000"
    by (auto simp: spec_candidate_def)
  show ?thesis
  proof (cases "yest s")
    case None
    with pa near show ?thesis by (simp add: yest_step)
  next
    case (Some pt)
    obtain p0 t0 where "pt = (p0, t0)" by (cases pt)
    with Some pa near show ?thesis by (simp add: yest_step)
  qed
qed

lemma yest_loop_keeps:
  "yest s = Some pt0 \<Longrightarrow>
   \<exists>pt. yest (pressure_loop y xs s) = Some pt \<and>
        \<bar>instant (snd pt) - y\<bar> \<le> \<bar>instant (snd pt0) - y\<bar>"
proof (induction xs arbitrary: s pt0)
  case Nil
  then show ?case by simp
next
  case (Cons x xs)
  from yest_step_keeps [OF Cons.prems, of y x]
  obtain pt1 where s1: "yest (pressure_step y x s) = Some pt1"
    and d1: "\<bar>instant (snd pt1) - y\<bar> \<le> \<bar>instant (snd pt0) - y\<bar>" by blast
  from Cons.IH [OF s1]
  obtain pt where r: "yest (pressure_loop y xs (pressure_step y x s)) = Some pt"
    and d: "\<bar>instant (snd pt) - y\<bar> \<le> \<bar>instant (snd pt1) - y\<bar>" by blast
  from r d d1 show ?case by simp
qed

lemma yest_loop_nearest:
  "yest (pressure_loop y xs s) = Some (p, t) \<Longrightarrow> obs \<in> set xs \<Longrightarrow> spec_candidate y obs \<Longrightarrow>
   \<bar>instant t - y\<bar> \<le> \<bar>instant (timestamp obs) - y\<bar>"
proof (induction xs arbitrary: s)
  case Nil
  then show ?case by simp
next
  case (Cons x xs)
  show ?case
  proof (cases "obs = x")
    case True
    from yest_step_candidate [OF Cons.prems(3), of s]
    obtain pt1 where s1: "yest (pressure_step y obs s) = Some pt1"
      and d1: "\<bar>instant (snd pt1) - y\<bar> \<le> \<bar>instant (timestamp obs) - y\<bar>" by blast
    from yest_loop_keeps [OF s1, of y xs] Cons.prems(1) True
    have "\<bar>instant t - y\<bar> \<le> \<bar>instant (snd pt1) - y\<bar>" by simp
    with d1 show ?thesis by simp
  next
    case False
    with Cons.prems have "obs \<in> set xs" by simp
    with Cons.IH [of "pressure_step y x s"] Cons.prems show ?thesis by simp
  qed
qed

lemma yest_loop_origin:
  "yest (pressure_loop y xs s) = Some (p, t) \<Longrightarrow>
   yest s = Some (p, t) \<or>
   (\<exists>obs \<in> set xs. \<exists>pa. barometricPressure obs = Some pa \<and> p = fdiv (fl pa) 100 \<and>
       \<bar>instant (timestamp obs) - y\<bar> < 3600000000 \<and> timestamp obs = t)"
proof (induction xs arbitrary: s)
  case Nil
  then show ?case by simp
next
  case (Cons x xs)
  from Cons.IH [of "pressure_step y x s"] Cons.prems
  consider (here) "yest (pressure_step y x s) = Some (p, t)"
    | (later) "\<exists>obs \<in> set xs. \<exists>pa. barometricPressure obs = Some pa \<and> p = fdiv (fl pa) 100 \<and>
       \<bar>instant (timestamp obs) - y\<bar> < 3600000000 \<and> timestamp obs = t"
    by auto
  then show ?case
  proof cases
    case here
    then show ?thesis
      by (cases "barometricPressure x") (auto simp: yest_step split: if_splits)
  next
    case later
    then show ?thesis by auto
  qed
qed

lemma yest_loop_None:
  "yest (pressure_loop y xs pressure_init) = None \<longleftrightarrow> (\<forall>obs \<in> set xs. \<not> spec_candidate y obs)"
proof
  assume n: "yest (pressure_loop y xs pressure_init) = None"
  show "\<forall>obs \<in> set xs. \<not> spec_candidate y obs"
  proof (rule ballI, rule notI)
    fix obs assume o: "obs \<in> set xs" "spec_candidate y obs"
    then obtain pre post where xs: "xs = pre @ obs # post"
      by (auto simp: in_set_conv_decomp)
    have loop_app: "pressure_loop y (as @ bs) s = pressure_loop y bs (pressure_loop y as s)"
      for as bs s by (induction as arbitrary: s) simp_all
    from yest_step_candidate [OF o(2), of "pressure_loop y pre pressure_init"]
    obtain pt1 where "yest (pressure_step y obs (pressure_loop y pre pressure_init)) = Some pt1"
      by blast
    from yest_loop_keeps [OF this, of y post]
    have "\<exists>pt. yest (pressure_loop y xs pressure_init) = Some pt"
      unfolding xs loop_app by auto
    with n show False by simp
  qed
next
  assume a: "\<forall>obs \<in> set xs. \<not> spec_candidate y obs"
  show "yest (pressure_loop y xs pressure_init) = None"
  proof (rule ccontr)
    assume "yest (pressure_loop y xs pressure_init) \<noteq> None"
    then obtain p t where "yest (pressure_loop y xs pressure_init) = Some (p, t)" by auto
    from yest_loop_origin [OF this] a show False
      by (auto simp: pressure_init_def spec_candidate_def)
  qed
qed

lemma get_pressure_data_Inr:
  "get_pressure_data (Inr observations) tz now =
     Inr (summarise_pressure
            (pressure_loop (astimezone tz (now - timedelta_days 1)) observations pressure_init))"
  by (simp add: get_pressure_data_def Let_def)

lemmas pressure_eval =
  get_pressure_data_def astimezone_def utc_zone_def example_zone_def timedelta_days_def
  pressure_init_def pressure_step_def Let_def summarise_pressure_def round1_if_def
  spec_candidate_def

text \<open>
  What the selection does when the local UTC offset one day before the reading of
  the wall clock is the offset at the reading, so that the mark is the instant 24
  hours before now: the 24h-ago reading is absent exactly when no observation is a
  candidate; otherwise it comes from a candidate observation whose distance to the
  mark is minimal among all candidates, on either side of the mark.
\<close>

lemma yesterday_is_nearest_candidate:
  assumes "get_pressure_data (Inr observations) tz now = Inr r"
    and "tz (now - timedelta_days 1) = tz now"
  shows "(yesterday_time r = None \<longleftrightarrow>
            (\<forall>obs \<in> set observations.
               \<not> spec_candidate (astimezone tz now - timedelta_days 1) obs))
       \<and> (\<forall>t. yesterday_time r = Some t \<longrightarrow>
            (\<exists>obs \<in> set observations. \<exists>pa.
               barometricPressure obs = Some pa \<and>
               spec_candidate (astimezone tz now - timedelta_days 1) obs \<and>
               timestamp obs = t \<and>
               yesterday_pressure r = round1_if (Some (fdiv (fl pa) 100)) \<and>
               (\<forall>other \<in> set observations.
                  spec_candidate (astimezone tz now - timedelta_days 1) other \<longrightarrow>
                  \<bar>instant t - (astimezone tz now - timedelta_days 1)\<bar>
                    \<le> \<bar>instant (timestamp other) - (astimezone tz now - timedelta_days 1)\<bar>)))"
proof -
  let ?y = "astimezone tz now - timedelta_days 1"
  let ?s = "pressure_loop ?y observations pressure_init"
  from assms(1) have r: "r = summarise_pressure ?s"
    unfolding get_pressure_data_Inr astimezone_shift [OF assms(2)] by simp
  have yt: "yesterday_time r = map_option snd (yest ?s)"
    and yp: "yesterday_pressure r = round1_if (map_option fst (yest ?s))"
    unfolding r by (simp_all add: summarise_pressure_def Let_def)
  have a: "yesterday_time r = None \<longleftrightarrow> (\<forall>obs \<in> set observations. \<not> spec_candidate ?y obs)"
    unfolding yt by (simp add: yest_loop_None)
  have b: "\<exists>obs \<in> set observations. \<exists>pa.
               barometricPressure obs = Some pa \<and> spec_candidate ?y obs \<and> timestamp obs = t \<and>
               yesterday_pressure r = round1_if (Some (fdiv (fl pa) 100)) \<and>
               (\<forall>other \<in> set observations. spec_candidate ?y other \<longrightarrow>
                  \<bar>instant t - ?y\<bar> \<le> \<bar>instant (timestamp other) - ?y\<bar>)"
    if "yesterday_time r = Some t" for t
  proof -
    from that obtain p where s: "yest ?s = Some (p, t)"
      unfolding yt by auto
    from yest_loop_origin [OF s]
    obtain obs pa where o: "obs \<in> set observations" "barometricPressure obs = Some pa"
      "p = fdiv (fl pa) 100" "\<bar>instant (timestamp obs) - ?y\<bar> < 3600000000" "timestamp obs = t"
      by (auto simp: pressure_init_def)
    from o have c: "spec_candidate ?y obs"
      by (simp add: spec_candidate_def)
    have ypr: "yesterday_pressure r = round1_if (Some (fdiv (fl pa) 100))"
      unfolding yp s o(3) by simp
    have near: "\<forall>other \<in> set observations. spec_candidate ?y other \<longrightarrow>
                  \<bar>instant t - ?y\<bar> \<le> \<bar>instant (timestamp other) - ?y\<bar>"
      using yest_loop_nearest [OF s] by blast
    from o(1) o(2) c o(5) ypr near show ?thesis by blast
  qed
  from a b show ?thesis by blast
qed

text \<open>
  The example of the specification on a machine that keeps UTC: of two candidates,
  23.5 and 24.3 hours old, the one 24.3 hours old is selected.
\<close>

lemma yesterday_example:
  "get_pressure_data
     (Inr [utc_obs 1730000000000000 None (Some 101300),
           utc_obs 1729915400000000 None (Some 101000),
           utc_obs 1729912520000000 None (Some 100500)]) utc_zone 1730000000000000 =
   Inr \<lparr>current_pressure = Some 1013, yesterday_pressure = Some 1005,
        pressure_change = Some 8,
        current_time = Some \<lparr>instant = 1730000000000000, utcoffset = 0\<rparr>,
        yesterday_time = Some \<lparr>instant = 1729912520000000, utcoffset = 0\<rparr>\<rparr>"
  by (simp add: pressure_eval float_eval)

text \<open>
  C2. The claim measures the hour around the instant 24 hours before now. The code
  subtracts one day from the naive reading of the wall clock and attaches the zone
  afterwards (lines 148 and 172). On the evening after the clocks were set back, at
  20:00 on 3 November 2024 in a zone that went from UTC-4 to UTC-5 that morning, its
  mark is 25 hours before now: a reading 23 hours 50 minutes old, 10 minutes from the
  24-hour mark and a candidate of the claim, is not selected, and the 24h-ago reading
  is absent.
\<close>

theorem yesterday_missed_after_clock_change:
  "get_pressure_data
     (Inr [utc_obs 1730682000000000 None (Some 101300),
           utc_obs 1730596200000000 None (Some 100500)]) example_zone 1730664000000000 =
   Inr \<lparr>current_pressure = Some 1013, yesterday_pressure = None,
        pressure_change = None,
        current_time = Some \<lparr>instant = 1730682000000000, utcoffset = 0\<rparr>,
        yesterday_time = None\<rparr>
   \<and> astimezone example_zone 1730664000000000 = 1730682000000000
   \<and> spec_candidate (astimezone example_zone 1730664000000000 - timedelta_days 1)
        (utc_obs 1730596200000000 None (Some 100500))
   \<and> \<bar>instant (timestamp (utc_obs 1730596200000000 None (Some 100500)))
        - (astimezone example_zone 1730664000000000 - timedelta_days 1)\<bar> = 600000000
   \<and> astimezone example_zone (1730664000000000 - timedelta_days 1)
        = astimezone example_zone 1730664000000000 - timedelta_hours 25"
  by (simp add: pressure_eval timedelta_hours_def float_eval del: not_None_eq)

text \<open>
  C1. The claim asks for a pressure change whenever both readings are present. The
  code tests the readings and the difference for truthiness, so two equal readings,
  24 hours apart, give both pressures and no change.
\<close>

theorem pressure_change_absent_when_unchanged:
  "get_pressure_data
     (Inr [utc_obs 1730000000000000 None (Some 101320),
           utc_obs 1729913600000000 None (Some 101320)]) utc_zone 1730000000000000 =
   Inr \<lparr>current_pressure = Some (fl (10132 / 10)), yesterday_pressure = Some (fl (10132 / 10)),
        pressure_change = None,
        current_time = Some \<lparr>instant = 1730000000000000, utcoffset = 0\<rparr>,
        yesterday_time = Some \<lparr>instant = 1729913600000000, utcoffset = 0\<rparr>\<rparr>"
  by (simp add: pressure_eval float_eval)

section \<open>The report\<close>

lemma round1_if_Some: "round1_if (Some x) = (if x = 0 then None else Some (py_round x 1))"
  by (simp add: round1_if_def)

lemma round1_if_None: "round1_if None = None"
  by (simp add: round1_if_def)

lemma pressure_text_summarise: "\<exists>t. pressure_text F thr (summarise_pressure s) = Inr t"
proof (cases "cur s")
  case None
  then show ?thesis
    by (simp add: pressure_text_def summarise_pressure_def round1_if_None)
next
  case c: (Some cp)
  show ?thesis
  proof (cases "yest s")
    case None
    with c show ?thesis
      by (simp add: pressure_text_def summarise_pressure_def round1_if_None round1_if_Some)
  next
    case y: (Some yp)
    obtain c1 c2 y1 y2 where cp: "cp = (c1, c2)" and yp: "yp = (y1, y2)"
      by (cases cp; cases yp) blast
    show ?thesis
      using c y cp yp
      by (simp add: pressure_text_def summarise_pressure_def round1_if_None round1_if_Some
            split_beta)
  qed
qed

lemma change_needs_yesterday:
  "pressure_change (summarise_pressure s) = Some change \<Longrightarrow>
   yesterday_pressure (summarise_pressure s) \<noteq> None"
  by (cases "cur s"; cases "yest s")
     (auto simp: summarise_pressure_def round1_if_def Let_def split: if_splits)

lemma email_body_contains:
  "sublist f_text (email_body F cfg sid precip_data emoji recommendation p_text f_text d_text now)"
proof -
  have "\<exists>pre post. email_body F cfg sid precip_data emoji recommendation p_text f_text d_text now =
          pre @ f_text @ post"
    unfolding email_body_def
    by (metis append.assoc)
  then show ?thesis by (auto simp: sublist_def)
qed

lemma email_body_contains_pressure:
  "sublist p_text (email_body F cfg sid precip_data emoji recommendation p_text f_text d_text now)"
proof -
  have "\<exists>pre post. email_body F cfg sid precip_data emoji recommendation p_text f_text d_text now =
          pre @ p_text @ post"
    unfolding email_body_def
    by (metis append.assoc)
  then show ?thesis by (auto simp: sublist_def)
qed

lemma sublist_forecast_unavailable:
  "sublist (forecast_text F None) body \<Longrightarrow> sublist ''Forecast unavailable'' body"
proof -
  assume "sublist (forecast_text F None) body"
  then obtain pre post where "body = pre @ forecast_text F None @ post"
    unfolding sublist_def by blast
  then have "body = (pre @ ''  '') @ ''Forecast unavailable'' @ post"
    by (simp add: forecast_text_def)
  then show ?thesis
    by (simp only: sublist_appendI)
qed

lemma sublist_inside: "sublist (pre @ x @ post) body \<Longrightarrow> sublist x body"
proof -
  assume "sublist (pre @ x @ post) body"
  then obtain a b where "body = a @ (pre @ x @ post) @ b"
    unfolding sublist_def by blast
  then have "body = (a @ pre) @ x @ (post @ b)" by simp
  then show ?thesis by (simp only: sublist_appendI)
qed

text \<open>
  A run in which every request succeeds, a recipient is configured and the SMTP
  session accepts the message: it ends with status 0 and has sent one message, the
  report, to the recipients; the body holds the pressure section and the forecast
  section.
\<close>

lemma main_sends_report:
  assumes h: "config_file w = Inr cfg" "stations_response w = Inr (sid # sids)"
      "precipitation_response w = Inr obs1" "pressure_response w = Inr obs2"
      "get_forecast (forecast_response w) = Inr fc" "recipients (email cfg) = Inr recips"
      "\<forall>m. smtp_session w m = None"
  shows "\<exists>pt msg.
           pressure_text F (pressure_threshold_of (sprinkler (parsed cfg)))
             (summarise_pressure
                (pressure_loop (astimezone (zone w) (clock w 2 - timedelta_days 1)) obs2
                   pressure_init)) = Inr pt \<and>
           main F w = (0, [msg]) \<and> msg_subject msg = ''Weather update!'' \<and>
           msg_to msg = join_comma recips \<and>
           sublist pt (msg_body msg) \<and> sublist (forecast_text F fc) (msg_body msg)"
proof -
  let ?pc = "parsed cfg"
  let ?pd1 = "summarise_precipitation sid
                (precip_loop
                   (astimezone (zone w) (clock w 0 - timedelta_hours (hours_to_check (sprinkler ?pc))))
                   (astimezone (zone w) (clock w 1 - timedelta_days 7)) obs1 precip_init)"
  let ?pd2 = "summarise_pressure
                (pressure_loop (astimezone (zone w) (clock w 2 - timedelta_days 1)) obs2
                   pressure_init)"
  let ?rec = "recommend (total_inches ?pd1) (threshold (sprinkler ?pc))"
  obtain pt where pt: "pressure_text F (pressure_threshold_of (sprinkler ?pc)) ?pd2 = Inr pt"
    using pressure_text_summarise by blast
  let ?body = "email_body F ?pc sid ?pd1 (snd ?rec) (fst ?rec) pt (forecast_text F fc)
                 (daily_totals_text F (daily_totals_inches ?pd1)) (clock w 3)"
  let ?msg = "\<lparr>msg_from = from_email (email cfg), msg_to = join_comma recips,
               msg_subject = ''Weather update!'', msg_body = ?body\<rparr>"
  have s0: "load_config w = Inr ?pc"
    using h(1) by (simp add: load_config_def)
  have s1: "get_nws_observation_station (stations_response w) = Inr sid"
    using h(2) by (simp add: get_nws_observation_station_def)
  have s2: "get_precipitation_data (precipitation_response w) (zone w) (clock w 0) (clock w 1) sid
              (hours_to_check (sprinkler ?pc)) = Inr ?pd1"
    unfolding h(3) by (rule get_precipitation_data_Inr)
  have s3: "get_pressure_data (pressure_response w) (zone w) (clock w 2) = Inr ?pd2"
    unfolding h(4) by (rule get_pressure_data_Inr)
  have e: "email ?pc = email cfg"
    by (simp add: parsed_def)
  have s5: "send_email (smtp_session w) ?pc ''Weather update!'' ?body = Inr (recips, ?msg)"
    using h(6) h(7) by (simp add: send_email_def Let_def e)
  have run: "run F w = Inr (recips, ?msg)"
    by (simp only: run_def s0 s1 s2 s3 h(5) sum.case Let_def split_beta pt s5)
  have m: "main F w = (0, [?msg])"
    unfolding main_def run by simp
  have b1: "sublist pt (msg_body ?msg)"
    by (simp add: email_body_contains_pressure)
  have b2: "sublist (forecast_text F fc) (msg_body ?msg)"
    by (simp add: email_body_contains)
  have b3: "msg_subject ?msg = ''Weather update!''" and b4: "msg_to ?msg = join_comma recips"
    by simp_all
  from pt m b1 b2 b3 b4 show ?thesis by blast
qed

text \<open>
  C4. A reported change is marked SIGNIFICANT exactly when it is negative and its
  magnitude reaches the threshold; a rise is marked normal. The threshold is the
  value of \<open>pressure_change_threshold\<close> in the configuration, and 6 when the
  configuration gives none. The mark is printed on the Change line whenever the
  pressure section is rendered, that is when line 320 holds: the current pressure is
  truthy and the change is present. In a run that succeeds, the message that is
  sent holds the Change line with the mark decided against the configured threshold
  (as a double), or against 6.
\<close>

theorem significant_iff_drop:
  "((fst (significance_trend thr change) = ''SIGNIFICANT'') = (change < 0 \<and> thr \<le> \<bar>change\<bar>))
   \<and> (0 < change \<longrightarrow> fst (significance_trend thr change) = ''normal'')
   \<and> pressure_threshold_of sc = (case pressure_change_threshold sc of None \<Rightarrow> 6 | Some t \<Rightarrow> t)
   \<and> (truthy (current_pressure pd) \<and> pressure_change pd = Some change \<and> yesterday_pressure pd \<noteq> None
        \<longrightarrow> (\<exists>pre post. pressure_text F thr pd =
               Inr (pre @ ''  Change: '' @ fmt_plus_1f F change @ '' hPa ('' @
                    fst (significance_trend thr change) @ '' - '' @
                    snd (significance_trend thr change) @ '')'' @ post)))
   \<and> (config_file w = Inr cfg \<and> stations_response w = Inr (sid # sids) \<and>
       precipitation_response w = Inr obs1 \<and> pressure_response w = Inr obs2 \<and>
       get_forecast (forecast_response w) = Inr fc \<and> recipients (email cfg) = Inr recips \<and>
       (\<forall>m. smtp_session w m = None) \<and>
       get_pressure_data (Inr obs2) (zone w) (clock w 2) = Inr pd2 \<and>
       truthy (current_pressure pd2) \<and> pressure_change pd2 = Some ch
      \<longrightarrow> (\<exists>msg. main F w = (0, [msg]) \<and>
             sublist (''  Change: '' @ fmt_plus_1f F ch @ '' hPa ('' @
                fst (significance_trend
                       (case pressure_change_threshold (sprinkler cfg) of
                          None \<Rightarrow> 6 | Some t \<Rightarrow> fl t) ch) @ '' - '' @
                snd (significance_trend
                       (case pressure_change_threshold (sprinkler cfg) of
                          None \<Rightarrow> 6 | Some t \<Rightarrow> fl t) ch) @ '')'')
               (msg_body msg)))"
proof -
  have a: "(fst (significance_trend thr change) = ''SIGNIFICANT'') = (change < 0 \<and> thr \<le> \<bar>change\<bar>)"
    by (auto simp: significance_trend_def Let_def)
  have b: "0 < change \<longrightarrow> fst (significance_trend thr change) = ''normal''"
    by (simp add: significance_trend_def Let_def)
  have d: "pressure_threshold_of sc = (case pressure_change_threshold sc of None \<Rightarrow> 6 | Some t \<Rightarrow> t)"
    by (simp add: pressure_threshold_of_def)
  have c: "\<exists>pre post. pressure_text F thr pd =
               Inr (pre @ ''  Change: '' @ fmt_plus_1f F change @ '' hPa ('' @
                    fst (significance_trend thr change) @ '' - '' @
                    snd (significance_trend thr change) @ '')'' @ post)"
    if g: "truthy (current_pressure pd)" "pressure_change pd = Some change"
      "yesterday_pressure pd \<noteq> None"
    for thr change pd
  proof -
    from g obtain c y where cy: "current_pressure pd = Some c" "yesterday_pressure pd = Some y"
      by (cases "current_pressure pd"; cases "yesterday_pressure pd") simp_all
    let ?pre = "''  Current: '' @ fmt_1f F c @ '' hPa'' @ nl @
                ''  24h ago: '' @ fmt_1f F y @ '' hPa'' @ nl"
    let ?post = "nl @ ''  Migraines are commonly triggered with pressures <1007 hPa or changes >6 hPa.'' @
                 nl @ ''  ''"
    have "pressure_text F thr pd =
               Inr (?pre @ ''  Change: '' @ fmt_plus_1f F change @ '' hPa ('' @
                    fst (significance_trend thr change) @ '' - '' @
                    snd (significance_trend thr change) @ '')'' @ ?post)"
      using g cy by (simp add: pressure_text_def split_beta)
    then show ?thesis by blast
  qed
  have e: "\<exists>msg. main F w = (0, [msg]) \<and>
             sublist (''  Change: '' @ fmt_plus_1f F ch @ '' hPa ('' @
                fst (significance_trend
                       (case pressure_change_threshold (sprinkler cfg) of
                          None \<Rightarrow> 6 | Some t \<Rightarrow> fl t) ch) @ '' - '' @
                snd (significance_trend
                       (case pressure_change_threshold (sprinkler cfg) of
                          None \<Rightarrow> 6 | Some t \<Rightarrow> fl t) ch) @ '')'')
               (msg_body msg)"
    if h: "config_file w = Inr cfg" "stations_response w = Inr (sid # sids)"
      "precipitation_response w = Inr obs1" "pressure_response w = Inr obs2"
      "get_forecast (forecast_response w) = Inr fc" "recipients (email cfg) = Inr recips"
      "\<forall>m. smtp_session w m = None"
      and p: "get_pressure_data (Inr obs2) (zone w) (clock w 2) = Inr pd2"
      "truthy (current_pressure pd2)" "pressure_change pd2 = Some ch"
  proof -
    let ?T = "case pressure_change_threshold (sprinkler cfg) of None \<Rightarrow> 6 | Some t \<Rightarrow> fl t"
    let ?s = "pressure_loop (astimezone (zone w) (clock w 2 - timedelta_days 1)) obs2 pressure_init"
    have T: "pressure_threshold_of (sprinkler (parsed cfg)) = ?T"
      by (cases "pressure_change_threshold (sprinkler cfg)")
         (simp_all add: pressure_threshold_of_def parsed_def)
    from p(1) have pd2: "pd2 = summarise_pressure ?s"
      unfolding get_pressure_data_Inr by simp
    from p(3) have y: "yesterday_pressure pd2 \<noteq> None"
      unfolding pd2 by (rule change_needs_yesterday)
    from main_sends_report [OF h, of F]
    obtain pt msg where pt: "pressure_text F ?T pd2 = Inr pt"
      and m: "main F w = (0, [msg])" and s: "sublist pt (msg_body msg)"
      unfolding T pd2 by blast
    from c [OF p(2) p(3) y, of ?T]
    obtain pre post where "pressure_text F ?T pd2 =
        Inr (pre @ (''  Change: '' @ fmt_plus_1f F ch @ '' hPa ('' @
                    fst (significance_trend ?T ch) @ '' - '' @
                    snd (significance_trend ?T ch) @ '')'') @ post)"
      by auto
    with pt have "pt = pre @ (''  Change: '' @ fmt_plus_1f F ch @ '' hPa ('' @
                    fst (significance_trend ?T ch) @ '' - '' @
                    snd (significance_trend ?T ch) @ '')'') @ post"
      by simp
    with s have "sublist (''  Change: '' @ fmt_plus_1f F ch @ '' hPa ('' @
                    fst (significance_trend ?T ch) @ '' - '' @
                    snd (significance_trend ?T ch) @ '')'') (msg_body msg)"
      using sublist_inside by blast
    with m show ?thesis by blast
  qed
  from a b c d e show ?thesis by blast
qed

theorem significant_iff_drop_witness:
  "0 < (8 :: rat) \<and> fst (significance_trend 6 8) = ''normal''
   \<and> fst (significance_trend 6 (- 8)) = ''SIGNIFICANT''
   \<and> config_file example_pressure_world = Inr example_config
   \<and> pressure_change_threshold (sprinkler example_config) = None
   \<and> stations_response example_pressure_world = Inr [''KSEA'']
   \<and> precipitation_response example_pressure_world = Inr []
   \<and> pressure_response example_pressure_world =
        Inr [utc_obs 1730000000000000 None (Some 100500),
             utc_obs 1729913600000000 None (Some 101300)]
   \<and> get_forecast (forecast_response example_pressure_world) = Inr None
   \<and> recipients (email example_config) = Inr [''gardener@example.org'']
   \<and> (\<forall>m. smtp_session example_pressure_world m = None)
   \<and> get_pressure_data
        (Inr [utc_obs 1730000000000000 None (Some 100500),
              utc_obs 1729913600000000 None (Some 101300)])
        (zone example_pressure_world) (clock example_pressure_world 2) =
      Inr \<lparr>current_pressure = Some 1005, yesterday_pressure = Some 1013,
           pressure_change = Some (- 8),
           current_time = Some \<lparr>instant = 1730000000000000, utcoffset = 0\<rparr>,
           yesterday_time = Some \<lparr>instant = 1729913600000000, utcoffset = 0\<rparr>\<rparr>
   \<and> (\<exists>msg. main example_fmt example_pressure_world = (0, [msg]) \<and>
         sublist ''  Change: n hPa (SIGNIFICANT - falling)'' (msg_body msg))
   \<and> (\<exists>msg. main example_fmt
               (example_pressure_world
                  \<lparr>config_file := Inr (example_config
                     \<lparr>sprinkler := (sprinkler example_config)
                        \<lparr>pressure_change_threshold := Some 10\<rparr>\<rparr>)\<rparr>) = (0, [msg]) \<and>
         sublist ''  Change: n hPa (normal - falling slightly)'' (msg_body msg))"
proof -
  let ?obs = "[utc_obs 1730000000000000 None (Some 100500),
               utc_obs 1729913600000000 None (Some 101300)]"
  let ?pd = "\<lparr>current_pressure = Some 1005, yesterday_pressure = Some 1013,
           pressure_change = Some (- 8),
           current_time = Some \<lparr>instant = 1730000000000000, utcoffset = 0\<rparr>,
           yesterday_time = Some \<lparr>instant = 1729913600000000, utcoffset = 0\<rparr>\<rparr>"
  let ?cfg10 = "example_config
      \<lparr>sprinkler := (sprinkler example_config)\<lparr>pressure_change_threshold := Some 10\<rparr>\<rparr>"
  let ?w10 = "example_pressure_world\<lparr>config_file := Inr ?cfg10\<rparr>"
  have r1: "0 < (8 :: rat)" by simp
  from significant_iff_drop [of 6 8, THEN conjunct2, THEN conjunct1, THEN mp, OF r1]
  have r2: "fst (significance_trend 6 8) = ''normal''" .
  have st: "significance_trend 6 (- 8) = (''SIGNIFICANT'', ''falling'')"
    by (simp add: significance_trend_def)
  have st10: "significance_trend 10 (- 8) = (''normal'', ''falling slightly'')"
    by (simp add: significance_trend_def)
  have r3: "fst (significance_trend 6 (- 8)) = ''SIGNIFICANT''"
    unfolding st by simp
  have w1: "config_file example_pressure_world = Inr example_config"
    and w2: "stations_response example_pressure_world = Inr (''KSEA'' # [])"
    and w3: "precipitation_response example_pressure_world = Inr []"
    and w4: "pressure_response example_pressure_world = Inr ?obs"
    and w5: "get_forecast (forecast_response example_pressure_world) = Inr None"
    and w7: "\<forall>m. smtp_session example_pressure_world m = None"
    by (simp_all add: example_pressure_world_def example_world_def get_forecast_def)
  have w6: "recipients (email example_config) = Inr [''gardener@example.org'']"
    by (simp add: example_config_def example_email_def recipients_def)
  have t0: "pressure_change_threshold (sprinkler example_config) = None"
    by (simp add: example_config_def)
  have t10: "pressure_change_threshold (sprinkler ?cfg10) = Some 10"
    by simp
  have ev: "get_pressure_data (Inr ?obs) (zone example_pressure_world)
              (clock example_pressure_world 2) = Inr ?pd"
    by (simp add: example_pressure_world_def example_world_def pressure_eval float_eval)
  have p2: "truthy (current_pressure ?pd)" and p3: "pressure_change ?pd = Some (- 8)"
    by simp_all
  have f: "fmt_plus_1f example_fmt (- 8) = ''n''"
    by (simp add: example_fmt_def)
  note A = significant_iff_drop [where F = example_fmt and w = example_pressure_world,
      THEN conjunct2, THEN conjunct2, THEN conjunct2, THEN conjunct2, THEN mp,
      OF conjI [OF w1 conjI [OF w2 conjI [OF w3 conjI [OF w4 conjI [OF w5 conjI [OF w6
         conjI [OF w7 conjI [OF ev conjI [OF p2 p3]]]]]]]]]]
  have m6: "\<exists>msg. main example_fmt example_pressure_world = (0, [msg]) \<and>
         sublist ''  Change: n hPa (SIGNIFICANT - falling)'' (msg_body msg)"
    using A by (simp add: t0 f st)
  have v1: "config_file ?w10 = Inr ?cfg10"
    and v2: "stations_response ?w10 = Inr (''KSEA'' # [])"
    and v3: "precipitation_response ?w10 = Inr []"
    and v4: "pressure_response ?w10 = Inr ?obs"
    and v5: "get_forecast (forecast_response ?w10) = Inr None"
    and v7: "\<forall>m. smtp_session ?w10 m = None"
    by (simp_all add: example_pressure_world_def example_world_def get_forecast_def)
  have v6: "recipients (email ?cfg10) = Inr [''gardener@example.org'']"
    by (simp add: example_config_def example_email_def recipients_def)
  have ev10: "get_pressure_data (Inr ?obs) (zone ?w10) (clock ?w10 2) = Inr ?pd"
    using ev by simp
  note B = significant_iff_drop [where F = example_fmt and w = ?w10,
      THEN conjunct2, THEN conjunct2, THEN conjunct2, THEN conjunct2, THEN mp,
      OF conjI [OF v1 conjI [OF v2 conjI [OF v3 conjI [OF v4 conjI [OF v5 conjI [OF v6
         conjI [OF v7 conjI [OF ev10 conjI [OF p2 p3]]]]]]]]]]
  have m10: "\<exists>msg. main example_fmt ?w10 = (0, [msg]) \<and>
         sublist ''  Change: n hPa (normal - falling slightly)'' (msg_body msg)"
    using B by (simp add: f fl_10 st10)
  have w2': "stations_response example_pressure_world = Inr [''KSEA'']"
    using w2 by simp
  show ?thesis
    by (intro conjI) (rule r1 r2 r3 w1 t0 w2' w3 w4 w5 w6 w7 ev m6 m10)+
qed

text \<open>
  C8. With zero forecast periods \<open>get_forecast\<close> returns \<open>None\<close> and raises
  nothing, the forecast section reads "Forecast unavailable", and when the other
  requests succeed, a recipient is configured and the SMTP session accepts the
  message, the run ends with status 0 having sent the report that holds the
  placeholder.
\<close>

theorem empty_forecast_is_unavailable:
  "get_forecast (Inr []) = Inr None
   \<and> forecast_text F None = ''  Forecast unavailable''
   \<and> (config_file w = Inr cfg \<and> stations_response w = Inr (sid # sids) \<and>
       precipitation_response w = Inr obs1 \<and> pressure_response w = Inr obs2 \<and>
       forecast_response w = Inr [] \<and> recipients (email cfg) = Inr recips \<and>
       (\<forall>m. smtp_session w m = None)
      \<longrightarrow> (\<exists>msg. main F w = (0, [msg]) \<and> msg_subject msg = ''Weather update!'' \<and>
                 sublist ''Forecast unavailable'' (msg_body msg)))"
proof -
  have a: "get_forecast (Inr []) = Inr None"
    by (simp add: get_forecast_def)
  have b: "forecast_text F None = ''  Forecast unavailable''"
    by (simp add: forecast_text_def)
  have c: "\<exists>msg. main F w = (0, [msg]) \<and> msg_subject msg = ''Weather update!'' \<and>
                 sublist ''Forecast unavailable'' (msg_body msg)"
    if h: "config_file w = Inr cfg" "stations_response w = Inr (sid # sids)"
      "precipitation_response w = Inr obs1" "pressure_response w = Inr obs2"
      "forecast_response w = Inr []" "recipients (email cfg) = Inr recips"
      "\<forall>m. smtp_session w m = None"
  proof -
    have s4: "get_forecast (forecast_response w) = Inr None"
      unfolding h(5) by (rule a)
    from main_sends_report [OF h(1) h(2) h(3) h(4) s4 h(6) h(7), of F]
    obtain msg where m: "main F w = (0, [msg])" "msg_subject msg = ''Weather update!''"
      "sublist (forecast_text F None) (msg_body msg)"
      by blast
    from m(3) have "sublist ''Forecast unavailable'' (msg_body msg)"
      by (rule sublist_forecast_unavailable)
    with m show ?thesis by blast
  qed
  from a b c show ?thesis by blast
qed

theorem empty_forecast_is_unavailable_witness:
  "config_file example_world = Inr example_config
   \<and> stations_response example_world = Inr [''KSEA'']
   \<and> precipitation_response example_world = Inr []
   \<and> pressure_response example_world = Inr []
   \<and> forecast_response example_world = Inr []
   \<and> recipients (email example_config) = Inr [''gardener@example.org'']
   \<and> (\<forall>m. smtp_session example_world m = None)
   \<and> (\<exists>msg. main example_fmt example_world = (0, [msg]) \<and>
             msg_subject msg = ''Weather update!'' \<and>
             sublist ''Forecast unavailable'' (msg_body msg))"
proof -
  have h: "config_file example_world = Inr example_config \<and>
       stations_response example_world = Inr (''KSEA'' # []) \<and>
       precipitation_response example_world = Inr [] \<and>
       pressure_response example_world = Inr [] \<and>
       forecast_response example_world = Inr [] \<and>
       recipients (email example_config) = Inr [''gardener@example.org''] \<and>
       (\<forall>m. smtp_session example_world m = None)"
    by (simp add: example_world_def example_config_def example_email_def recipients_def)
  note T = empty_forecast_is_unavailable [where F = example_fmt and w = example_world,
      THEN conjunct2, THEN conjunct2, THEN mp, OF h]
  from h T show ?thesis by blast
qed

section \<open>Recipients\<close>

text \<open>
  C9. A single recipient given as a string, under \<open>to_emails\<close> or under the legacy
  \<open>to_email\<close> when \<open>to_emails\<close> is absent, becomes a one-element recipient list,
  and the message handed to the SMTP session is addressed to it; with neither key
  \<open>send_email\<close> raises.
\<close>

theorem single_recipient_normalised:
  "(to_emails (email cfg) = Some (Str s) \<or>
    (to_emails (email cfg) = None \<and> to_email (email cfg) = Some s) \<longrightarrow>
      recipients (email cfg) = Inr [s] \<and>
      send_email smtp cfg subject body =
        (case smtp \<lparr>msg_from = from_email (email cfg), msg_to = s, msg_subject = subject,
                     msg_body = body\<rparr> of
           Some e \<Rightarrow> Inl (Exception (''Error sending email: '' @ e))
         | None \<Rightarrow> Inr ([s], \<lparr>msg_from = from_email (email cfg), msg_to = s,
                              msg_subject = subject, msg_body = body\<rparr>)))
   \<and> (to_emails (email cfg) = None \<and> to_email (email cfg) = None \<longrightarrow>
        send_email smtp cfg subject body =
          Inl (Exception
            ''No recipient email configured. Use 'to_emails' (list) or 'to_email' (string) in config''))"
  by (auto simp: send_email_def recipients_def Let_def split: option.splits)

theorem single_recipient_normalised_witness:
  "to_emails (email example_config) = None
   \<and> to_email (email example_config) = Some ''gardener@example.org''
   \<and> recipients (email example_config) = Inr [''gardener@example.org'']
   \<and> send_email (\<lambda>m. None) example_config ''Weather update!'' ''report'' =
       Inr ([''gardener@example.org''],
            \<lparr>msg_from = ''weather@example.org'', msg_to = ''gardener@example.org'',
             msg_subject = ''Weather update!'', msg_body = ''report''\<rparr>)
   \<and> to_emails (email (example_config\<lparr>email := example_email\<lparr>to_email := None\<rparr>\<rparr>)) = None
   \<and> to_email (email (example_config\<lparr>email := example_email\<lparr>to_email := None\<rparr>\<rparr>)) = None
   \<and> send_email (\<lambda>m. None) (example_config\<lparr>email := example_email\<lparr>to_email := None\<rparr>\<rparr>)
         ''Weather update!'' ''report'' =
       Inl (Exception
         ''No recipient email configured. Use 'to_emails' (list) or 'to_email' (string) in config'')"
  using single_recipient_normalised
      [of example_config "''gardener@example.org''" "\<lambda>m. None" "''Weather update!''" "''report''"]
    single_recipient_normalised
      [of "example_config\<lparr>email := example_email\<lparr>to_email := None\<rparr>\<rparr>" "''x''" "\<lambda>m. None"
          "''Weather update!''" "''report''"]
  by (simp add: example_config_def example_email_def)

text \<open>
  C10. When \<open>to_emails\<close> is present its recipients are used: they are the recipient
  list, the \<^verbatim>\<open>To\<close> header of the message handed to the SMTP session is their
  names joined by a comma and a space, and the value of \<open>to_email\<close>, present or not,
  changes nothing; \<open>to_email\<close> is read only when \<open>to_emails\<close> is absent.
\<close>

theorem to_emails_takes_precedence:
  fixes ec :: email_config and cfg :: config
  shows "(to_emails ec = Some v \<longrightarrow>
       recipients ec = Inr (case v of Str s \<Rightarrow> [s] | StrList l \<Rightarrow> l) \<and>
       recipients (ec\<lparr>to_email := legacy\<rparr>) = recipients ec \<and>
       send_email smtp (cfg\<lparr>email := ec\<lparr>to_email := legacy\<rparr>\<rparr>) subject body =
         send_email smtp (cfg\<lparr>email := ec\<rparr>) subject body \<and>
       send_email smtp (cfg\<lparr>email := ec\<rparr>) subject body =
         (case smtp \<lparr>msg_from = from_email ec,
                     msg_to = join_comma (case v of Str s \<Rightarrow> [s] | StrList l \<Rightarrow> l),
                     msg_subject = subject, msg_body = body\<rparr> of
            Some e \<Rightarrow> Inl (Exception (''Error sending email: '' @ e))
          | None \<Rightarrow>
              Inr (case v of Str s \<Rightarrow> [s] | StrList l \<Rightarrow> l,
                   \<lparr>msg_from = from_email ec,
                    msg_to = join_comma (case v of Str s \<Rightarrow> [s] | StrList l \<Rightarrow> l),
                    msg_subject = subject, msg_body = body\<rparr>)))
   \<and> (to_emails ec = None \<longrightarrow>
       recipients ec =
         (case to_email ec of
            Some s \<Rightarrow> Inr [s]
          | None \<Rightarrow> Inl (Exception
              ''No recipient email configured. Use 'to_emails' (list) or 'to_email' (string) in config'')))
   \<and> join_comma [] = [] \<and> join_comma [a] = a
   \<and> join_comma (a # b # l) = a @ '', '' @ join_comma (b # l)"
proof -
  have 1: "recipients ec = Inr (case v of Str s \<Rightarrow> [s] | StrList l \<Rightarrow> l)"
    if "to_emails ec = Some v"
    using that by (simp add: recipients_def split: recipients_value.splits)
  have 2: "recipients (ec\<lparr>to_email := legacy\<rparr>) = recipients ec" if "to_emails ec = Some v"
    using that by (simp add: recipients_def)
  have 3: "send_email smtp (cfg\<lparr>email := ec\<lparr>to_email := legacy\<rparr>\<rparr>) subject body =
         send_email smtp (cfg\<lparr>email := ec\<rparr>) subject body" if "to_emails ec = Some v"
    using 1 [OF that] 2 [OF that] by (simp add: send_email_def Let_def)
  have 4: "send_email smtp (cfg\<lparr>email := ec\<rparr>) subject body =
         (case smtp \<lparr>msg_from = from_email ec,
                     msg_to = join_comma (case v of Str s \<Rightarrow> [s] | StrList l \<Rightarrow> l),
                     msg_subject = subject, msg_body = body\<rparr> of
            Some e \<Rightarrow> Inl (Exception (''Error sending email: '' @ e))
          | None \<Rightarrow>
              Inr (case v of Str s \<Rightarrow> [s] | StrList l \<Rightarrow> l,
                   \<lparr>msg_from = from_email ec,
                    msg_to = join_comma (case v of Str s \<Rightarrow> [s] | StrList l \<Rightarrow> l),
                    msg_subject = subject, msg_body = body\<rparr>))" if "to_emails ec = Some v"
    using 1 [OF that] by (simp add: send_email_def Let_def)
  have 5: "recipients ec =
         (case to_email ec of
            Some s \<Rightarrow> Inr [s]
          | None \<Rightarrow> Inl (Exception
              ''No recipient email configured. Use 'to_emails' (list) or 'to_email' (string) in config''))"
    if "to_emails ec = None"
    using that by (simp add: recipients_def)
  have 6: "join_comma [] = []" "join_comma [a] = a"
    "join_comma (a # b # l) = a @ '', '' @ join_comma (b # l)"
    by simp_all
  from 1 2 3 4 5 6 show ?thesis by blast
qed

theorem to_emails_takes_precedence_witness:
  "to_emails (example_email\<lparr>to_emails := Some (StrList [''a@example.org'', ''b@example.org''])\<rparr>)
     = Some (StrList [''a@example.org'', ''b@example.org''])
   \<and> to_email (example_email\<lparr>to_emails := Some (StrList [''a@example.org'', ''b@example.org''])\<rparr>)
     = Some ''gardener@example.org''
   \<and> recipients (example_email\<lparr>to_emails := Some (StrList [''a@example.org'', ''b@example.org''])\<rparr>)
     = Inr [''a@example.org'', ''b@example.org'']
   \<and> recipients (example_email\<lparr>to_emails := Some (StrList [''a@example.org'', ''b@example.org'']),
                                to_email := None\<rparr>)
     = Inr [''a@example.org'', ''b@example.org'']
   \<and> send_email (\<lambda>m. None)
        (example_config\<lparr>email := example_email
           \<lparr>to_emails := Some (StrList [''a@example.org'', ''b@example.org''])\<rparr>\<rparr>)
        ''Weather update!'' ''report'' =
       Inr ([''a@example.org'', ''b@example.org''],
            \<lparr>msg_from = ''weather@example.org'', msg_to = ''a@example.org, b@example.org'',
             msg_subject = ''Weather update!'', msg_body = ''report''\<rparr>)
   \<and> to_emails example_email = None
   \<and> recipients example_email = Inr [''gardener@example.org'']"
  using to_emails_takes_precedence
      [of "example_email\<lparr>to_emails := Some (StrList [''a@example.org'', ''b@example.org''])\<rparr>"
          "StrList [''a@example.org'', ''b@example.org'']" None "\<lambda>m. None" example_config
          "''Weather update!''" "''report''" "''a@example.org''" "''b@example.org''" "[]"]
    to_emails_takes_precedence
      [of example_email "Str ''x''" None "\<lambda>m. None" example_config "''s''" "''b''"
          "''a''" "''b''" "[]"]
  by (simp add: example_email_def)

end
